theory Spec2Isabelle
  imports Complex_Main "HOL-Library.Sublist"
begin

section \<open>taintedword: heuristic DOCX provenance scorer\<close>

text \<open>
  A shallow embedding of \<^verbatim>\<open>taintedword.py\<close>. Scores are Python floats built from
  decimal literals; they are modelled as exact rationals. A Python dict is an association
  list in insertion order, since \<^verbatim>\<open>max(d, key=d.get)\<close> walks the keys in that order.
  Exceptions are values of the type \<open>error\<close>.
\<close>

subsection \<open>Errors and scores\<close>

datatype error = KeyError | ValueError | ParseError

text \<open>
  An exception that a call raises and nothing catches leaves the caller too: the rest of
  the caller is not run.
\<close>

definition and_then :: "error + 'a \<Rightarrow> ('a \<Rightarrow> error + 'b) \<Rightarrow> error + 'b" where
  "and_then r f = (case r of Inl e \<Rightarrow> Inl e | Inr x \<Rightarrow> f x)"

type_synonym score = rat

type_synonym scoreboard = "(string \<times> score) list"

subsection \<open>Text\<close>

text \<open>
  A Python \<^verbatim>\<open>str\<close> is modelled as a \<open>string\<close> whose characters stand for code points
  below 256; text with other code points is outside the model. The character classes
  below are Python's on that range.
\<close>

definition code :: "char \<Rightarrow> nat" where
  "code c = of_char c"

text \<open>\<^verbatim>\<open>needle in haystack\<close> on strings.\<close>

fun py_in :: "string \<Rightarrow> string \<Rightarrow> bool" where
  "py_in n [] = (n = [])"
| "py_in n (c # cs) = (prefix n (c # cs) \<or> py_in n cs)"

text \<open>\<^verbatim>\<open>str.lower\<close>: A-Z, and the upper-case letters of Latin-1 (all of C0-DE but D7).\<close>

definition to_lower :: "char \<Rightarrow> char" where
  "to_lower c =
     (if (65 \<le> code c \<and> code c \<le> 90) \<or> (192 \<le> code c \<and> code c \<le> 222 \<and> code c \<noteq> 215)
      then char_of (code c + 32) else c)"

definition lower :: "string \<Rightarrow> string" where
  "lower s = map to_lower s"

text \<open>\<^verbatim>\<open>str.isspace\<close>, which is also the class \<^verbatim>\<open>\s\<close> of \<^verbatim>\<open>re\<close>.\<close>

definition is_space :: "char \<Rightarrow> bool" where
  "is_space c = ((9 \<le> code c \<and> code c \<le> 13) \<or> (28 \<le> code c \<and> code c \<le> 32)
                 \<or> code c = 133 \<or> code c = 160)"

text \<open>The class \<^verbatim>\<open>\d\<close> (decimal digits) and the word characters that \<^verbatim>\<open>\b\<close> looks at.\<close>

definition is_digit :: "char \<Rightarrow> bool" where
  "is_digit c = (48 \<le> code c \<and> code c \<le> 57)"

definition is_word_char :: "char \<Rightarrow> bool" where
  "is_word_char c =
     (is_digit c \<or> (65 \<le> code c \<and> code c \<le> 90) \<or> (97 \<le> code c \<and> code c \<le> 122) \<or> code c = 95
      \<or> code c \<in> {170, 178, 179, 181, 185, 186, 188, 189, 190}
      \<or> (192 \<le> code c \<and> code c \<noteq> 215 \<and> code c \<noteq> 247))"

text \<open>\<^verbatim>\<open>s.strip()\<close>.\<close>

definition strip :: "string \<Rightarrow> string" where
  "strip s = rev (dropWhile is_space (rev (dropWhile is_space s)))"

text \<open>
  \<^verbatim>\<open>s.count(sub)\<close> for a non-empty \<^verbatim>\<open>sub\<close>: occurrences from the left that do not
  overlap. After a hit the next \<open>length sub - 1\<close> characters are skipped.
\<close>

fun count_from :: "string \<Rightarrow> nat \<Rightarrow> string \<Rightarrow> nat" where
  "count_from sub skip [] = 0"
| "count_from sub skip (c # cs) =
     (if skip > 0 then count_from sub (skip - 1) cs
      else if prefix sub (c # cs) then 1 + count_from sub (length sub - 1) cs
      else count_from sub 0 cs)"

definition py_count :: "string \<Rightarrow> string \<Rightarrow> nat" where
  "py_count s sub = count_from sub 0 s"

text \<open>
  \<^verbatim>\<open>len(s.splitlines())\<close>: a line ends at \<^verbatim>\<open>\n\<close>, \<^verbatim>\<open>\r\<close>, \<^verbatim>\<open>\r\n\<close>, \<^verbatim>\<open>\v\<close>, \<^verbatim>\<open>\f\<close>,
  \<^verbatim>\<open>\x1c\<close>, \<^verbatim>\<open>\x1d\<close>, \<^verbatim>\<open>\x1e\<close> or \<^verbatim>\<open>\x85\<close>; text after the last line end is one more
  line when it is not empty.
\<close>

definition is_line_end :: "char \<Rightarrow> bool" where
  "is_line_end c = ((10 \<le> code c \<and> code c \<le> 13) \<or> (28 \<le> code c \<and> code c \<le> 30) \<or> code c = 133)"

fun count_lines :: "string \<Rightarrow> nat" where
  "count_lines [] = 0"
| "count_lines [c] = 1"
| "count_lines (c # d # cs) =
     (if code c = 13 \<and> code d = 10 then 1 + count_lines cs
      else if is_line_end c then 1 + count_lines (d # cs)
      else count_lines (d # cs))"

definition splitlines_len :: "string \<Rightarrow> nat" where
  "splitlines_len s = count_lines s"

text \<open>
  \<^verbatim>\<open>int(m)\<close> on a string of decimal digits. \<open>int_of_digits\<close> is the value of the
  digits; \<^verbatim>\<open>int\<close> itself raises ValueError on a string of more than 4300 digits, the
  default of \<^verbatim>\<open>sys.get_int_max_str_digits()\<close>. Leading zeros count as digits.
\<close>

definition int_of_digits :: "string \<Rightarrow> nat" where
  "int_of_digits m = foldl (\<lambda>n c. 10 * n + (code c - 48)) 0 m"

definition max_str_digits :: nat where
  "max_str_digits = 4300"

definition py_int :: "string \<Rightarrow> error + nat" where
  "py_int m = (if length m > max_str_digits then Inl ValueError else Inr (int_of_digits m))"

text \<open>
  \<^verbatim>\<open>for m in ms: v = int(m); if test(v): ...; break\<close>: the matches are converted one
  after the other, up to the first whose value passes the test. A match that is too long
  raises when the loop reaches it; a match after the one that passes is never converted.
\<close>

fun first_int :: "(nat \<Rightarrow> bool) \<Rightarrow> string list \<Rightarrow> error + nat option" where
  "first_int test [] = Inr None"
| "first_int test (m # ms) =
     (case py_int m of
        Inl e \<Rightarrow> Inl e
      | Inr v \<Rightarrow> if test v then Inr (Some v) else first_int test ms)"

subsection \<open>Regular expressions\<close>

text \<open>
  The patterns of the source use literals, character classes, greedy repetition of a
  class, alternation, \<^verbatim>\<open>\b\<close> and at most one capturing group. The matcher backtracks as
  \<^verbatim>\<open>re\<close> does: it takes the longest repetition first and the left alternative first, and
  hands each candidate to the continuation \<open>k\<close> that matches the rest of the pattern. A
  match state is the text before the position (reversed), the text after it, and the
  group captured so far.
\<close>

datatype rx =
    Lit string
  | Cls "char \<Rightarrow> bool"
  | Many "char \<Rightarrow> bool"
  | Seq rx rx
  | Alt rx rx
  | WordB
  | Group rx

type_synonym mstate = "string \<times> string \<times> string option"

fun many :: "(char \<Rightarrow> bool) \<Rightarrow> (mstate \<Rightarrow> 'a option) \<Rightarrow> string \<Rightarrow> string option \<Rightarrow> string \<Rightarrow> 'a option" where
  "many p k b c [] = k (b, [], c)"
| "many p k b c (x # xs) =
     (if p x then
        (case many p k (x # b) c xs of
           Some r \<Rightarrow> Some r
         | None \<Rightarrow> k (b, x # xs, c))
      else k (b, x # xs, c))"

text \<open>\<^verbatim>\<open>\b\<close>: exactly one of the two neighbouring characters is a word character.\<close>

definition at_boundary :: "string \<Rightarrow> string \<Rightarrow> bool" where
  "at_boundary b a =
     ((case b of [] \<Rightarrow> False | x # _ \<Rightarrow> is_word_char x)
      \<noteq> (case a of [] \<Rightarrow> False | x # _ \<Rightarrow> is_word_char x))"

fun rx_match :: "rx \<Rightarrow> mstate \<Rightarrow> (mstate \<Rightarrow> 'a option) \<Rightarrow> 'a option" where
  "rx_match (Lit l) (b, a, c) k =
     (if prefix l a then k (rev l @ b, drop (length l) a, c) else None)"
| "rx_match (Cls p) (b, a, c) k =
     (case a of [] \<Rightarrow> None | x # xs \<Rightarrow> if p x then k (x # b, xs, c) else None)"
| "rx_match (Many p) (b, a, c) k = many p k b c a"
| "rx_match (Seq r1 r2) st k = rx_match r1 st (\<lambda>st'. rx_match r2 st' k)"
| "rx_match (Alt r1 r2) st k =
     (case rx_match r1 st k of Some r \<Rightarrow> Some r | None \<Rightarrow> rx_match r2 st k)"
| "rx_match WordB (b, a, c) k = (if at_boundary b a then k (b, a, c) else None)"
| "rx_match (Group r) (b, a, c) k =
     rx_match r (b, a, c)
       (\<lambda>(b', a', c'). k (b', a', Some (rev (take (length b' - length b) b'))))"

text \<open>\<^verbatim>\<open>re.search\<close>: the first start position, from the left, at which the pattern matches.\<close>

fun search_from :: "rx \<Rightarrow> string \<Rightarrow> string \<Rightarrow> mstate option" where
  "search_from r b [] = rx_match r (b, [], None) Some"
| "search_from r b (x # xs) =
     (case rx_match r (b, x # xs, None) Some of
        Some m \<Rightarrow> Some m
      | None \<Rightarrow> search_from r (x # b) xs)"

definition re_search :: "rx \<Rightarrow> string \<Rightarrow> bool" where
  "re_search r s = (search_from r [] s \<noteq> None)"

text \<open>
  \<^verbatim>\<open>re.findall\<close>: the matches from the left that do not overlap; each gives the text of
  the group when the pattern has one, the whole match otherwise. No pattern of the source
  matches the empty string, so a match is at least one character long and the scan skips
  the rest of it.
\<close>

definition match_item :: "string \<Rightarrow> mstate \<Rightarrow> string" where
  "match_item b m =
     (case m of (b', a', c) \<Rightarrow>
        (case c of Some g \<Rightarrow> g | None \<Rightarrow> rev (take (length b' - length b) b')))"

definition match_len :: "string \<Rightarrow> mstate \<Rightarrow> nat" where
  "match_len b m = (case m of (b', a', c) \<Rightarrow> length b' - length b)"

fun findall_from :: "rx \<Rightarrow> nat \<Rightarrow> string \<Rightarrow> string \<Rightarrow> string list" where
  "findall_from r skip b [] =
     (if skip > 0 then []
      else (case rx_match r (b, [], None) Some of None \<Rightarrow> [] | Some m \<Rightarrow> [match_item b m]))"
| "findall_from r skip b (x # xs) =
     (if skip > 0 then findall_from r (skip - 1) (x # b) xs
      else (case rx_match r (b, x # xs, None) Some of
              None \<Rightarrow> findall_from r 0 (x # b) xs
            | Some m \<Rightarrow> match_item b m # findall_from r (match_len b m - 1) (x # b) xs))"

definition re_findall :: "rx \<Rightarrow> string \<Rightarrow> string list" where
  "re_findall r s = findall_from r 0 [] s"

text \<open>\<^verbatim>\<open>c+\<close> and \<^verbatim>\<open>c{n}\<close> for a class \<open>c\<close>, and a sequence of several patterns.\<close>

definition Many1 :: "(char \<Rightarrow> bool) \<Rightarrow> rx" where
  "Many1 p = Seq (Cls p) (Many p)"

fun Times :: "nat \<Rightarrow> (char \<Rightarrow> bool) \<Rightarrow> rx" where
  "Times 0 p = Lit []"
| "Times (Suc n) p = Seq (Cls p) (Times n p)"

fun Seqs :: "rx list \<Rightarrow> rx" where
  "Seqs [] = Lit []"
| "Seqs [r] = r"
| "Seqs (r # rs) = Seq r (Seqs rs)"

subsection \<open>Parsed XML\<close>

text \<open>
  An \<^verbatim>\<open>xml.etree.ElementTree\<close> element: tag, attributes, text (None when the element has
  none) and children. The parser \<^verbatim>\<open>ET.fromstring\<close> belongs to the Python library, not to
  this program: the model takes it as a parameter \<open>fromstring\<close>, which returns \<open>None\<close>
  where the library raises ParseError.
\<close>

datatype xml = Elem (tag: string) (attrib: "(string \<times> string) list") (elem_text: "string option") (children: "xml list")

text \<open>\<^verbatim>\<open>root.iter()\<close>: the element and its descendants in document order.\<close>

fun iter :: "xml \<Rightarrow> xml list" where
  "iter (Elem t a x cs) = Elem t a x cs # concat (map iter cs)"

text \<open>\<^verbatim>\<open>elem.get(key, "")\<close> and \<^verbatim>\<open>elem.text or ""\<close>.\<close>

definition get_attr :: "xml \<Rightarrow> string \<Rightarrow> string" where
  "get_attr e key = (case map_of (attrib e) key of None \<Rightarrow> [] | Some v \<Rightarrow> v)"

definition text_or_empty :: "xml \<Rightarrow> string" where
  "text_or_empty e = (case elem_text e of None \<Rightarrow> [] | Some t \<Rightarrow> t)"

text \<open>
  A parser given by a finite table: the listed documents parse to the listed trees, and
  every other text is a parse error.
\<close>

definition parser_of :: "(string \<times> xml) list \<Rightarrow> string \<Rightarrow> xml option" where
  "parser_of table s = map_of table s"

subsection \<open>The archive and the part bundle\<close>

text \<open>
  An opened archive is the list of its entries, name and decoded text; every entry is
  taken to be readable. \<^verbatim>\<open>zf.open(name)\<close> raises KeyError for a name that is absent; of
  several entries with one name the archive's directory keeps the last.
\<close>

type_synonym zip = "(string \<times> string) list"

definition zf_open :: "zip \<Rightarrow> string \<Rightarrow> string option" where
  "zf_open zf name = map_of (rev zf) name"

definition namelist :: "zip \<Rightarrow> string list" where
  "namelist zf = map fst zf"

text \<open>
  \<^verbatim>\<open>read_xml_from_zip\<close> catches KeyError only: the ParseError of \<^verbatim>\<open>ET.fromstring\<close>
  leaves the function.
\<close>

definition read_xml_from_zip :: "(string \<Rightarrow> xml option) \<Rightarrow> zip \<Rightarrow> string \<Rightarrow> error + xml option" where
  "read_xml_from_zip fromstring zf name =
     (case zf_open zf name of
        None \<Rightarrow> Inr None
      | Some content \<Rightarrow>
          (case fromstring content of
             None \<Rightarrow> Inl ParseError
           | Some rt \<Rightarrow> Inr (Some rt)))"

definition read_text_from_zip :: "zip \<Rightarrow> string \<Rightarrow> string" where
  "read_text_from_zip zf name = (case zf_open zf name of None \<Rightarrow> [] | Some content \<Rightarrow> content)"

record parts =
  app_xml :: "xml option"
  font_xml :: "xml option"
  doc_xml :: "xml option"
  styles_xml :: "xml option"
  settings_xml :: "xml option"
  theme_xml :: "xml option"
  content_types_txt :: string
  custom_props_txt :: string
  core_txt :: string
  app_txt :: string
  font_txt :: string
  doc_txt :: string
  styles_txt :: string
  settings_txt :: string
  theme_txt :: string

subsection \<open>Score and evidence of a detector\<close>

text \<open>
  Every detector starts with \<^verbatim>\<open>score, ev = 0.0, []\<close>, runs its tests in order and
  returns \<^verbatim>\<open>min(score, 10.0), ev\<close>. A test is a step on the pair: \<open>hit\<close> is
  \<^verbatim>\<open>score += w; ev.append(e)\<close>, \<open>remark\<close> is \<^verbatim>\<open>ev.append(e)\<close> alone and \<open>bump\<close> is
  \<^verbatim>\<open>score += w\<close> alone.
\<close>

type_synonym acc = "score \<times> string list"

type_synonym step = "acc \<Rightarrow> acc"

definition hit :: "score \<Rightarrow> string \<Rightarrow> step" where
  "hit w e a = (fst a + w, snd a @ [e])"

definition remark :: "string \<Rightarrow> step" where
  "remark e a = (fst a, snd a @ [e])"

definition bump :: "score \<Rightarrow> step" where
  "bump w a = (fst a + w, snd a)"

definition run_steps :: "step list \<Rightarrow> acc" where
  "run_steps steps = foldl (\<lambda>a s. s a) (0, []) steps"

definition finish :: "acc \<Rightarrow> acc" where
  "finish a = (min (fst a) 10, snd a)"

definition startswith :: "string \<Rightarrow> string \<Rightarrow> bool" where
  "startswith s p = prefix p s"

definition endswith :: "string \<Rightarrow> string \<Rightarrow> bool" where
  "endswith s p = prefix (rev p) (rev s)"

text \<open>
  The loop over \<^verbatim>\<open>app_xml.iter()\<close> of the LibreOffice and Word detectors stops at the
  first element whose tag ends with \<^verbatim>\<open>Application\<close>; \<open>val\<close> is its lowered text.
\<close>

definition application_val :: "xml option \<Rightarrow> string option" where
  "application_val root_opt =
     (case root_opt of
        None \<Rightarrow> None
      | Some rt \<Rightarrow>
          (case find (\<lambda>elem. endswith (tag elem) ''Application'') (iter rt) of
             None \<Rightarrow> None
           | Some elem \<Rightarrow> Some (lower (text_or_empty elem))))"

subsection \<open>LibreOffice signals\<close>

definition w_ns :: string where
  "w_ns = ''http://schemas.openxmlformats.org/wordprocessingml/2006/main''"

text \<open>
  \<^verbatim>\<open>styles_root.findall("w:style", NAMESPACES)\<close> gives the children of the root with
  that qualified tag. With no parsed styles the attribute access raises, and the
  \<^verbatim>\<open>except Exception\<close> around the test swallows it.
\<close>

definition style_names :: "xml option \<Rightarrow> string list option" where
  "style_names styles_root =
     (case styles_root of
        None \<Rightarrow> None
      | Some rt \<Rightarrow>
          Some (map (\<lambda>s. lower (get_attr s (''{'' @ w_ns @ ''}styleId'')))
                  (filter (\<lambda>c. tag c = ''{'' @ w_ns @ ''}style'') (children rt))))"

definition lo_steps :: "parts \<Rightarrow> step list" where
  "lo_steps p =
     [\<lambda>a. (case application_val (app_xml p) of
              None \<Rightarrow> a
            | Some val \<Rightarrow>
                if py_in ''libreoffice'' val
                then hit 6 ''Application tag indicates LibreOffice'' a else a),
      \<lambda>a. if list_ex (\<lambda>f. py_in f (font_txt p)) [''Liberation'', ''Noto'', ''Lohit'']
           then hit 3 ''LibreOffice font families present (Liberation/Noto/Lohit)'' a else a,
      \<lambda>a. if \<not> py_in ''<w:panose1'' (font_txt p) \<and> \<not> py_in ''<w:sig'' (font_txt p) \<and> font_txt p \<noteq> []
           then remark ''No <w:panose1> or <w:sig> font fingerprints (often present in Word)'' a else a,
      \<lambda>a. if py_in ''<w:formProt'' (doc_txt p)
           then hit 3 ''Found <w:formProt> (LibreOffice hallmark)'' a else a,
      \<lambda>a. if styles_txt p \<noteq> [] then
             (case style_names (styles_xml p) of
                None \<Rightarrow> a
              | Some names \<Rightarrow>
                  if list_ex (\<lambda>n. n \<in> set names) [''text body'', ''standard'', ''heading'', ''index'']
                  then hit 3 ''Found LibreOffice-style names (Text Body / Standard)'' a else a)
           else a,
      \<lambda>a. if styles_txt p \<noteq> []
              \<and> list_ex (\<lambda>f. py_in f (styles_txt p))
                   [''Liberation Sans'', ''Liberation Serif'', ''Noto Sans'', ''Lohit'']
           then hit 3 ''LibreOffice font families referenced in styles'' a else a,
      \<lambda>a. if py_in ''<w:autoHyphenation'' (settings_txt p)
           then hit (1/2) ''Contains <w:autoHyphenation> (possible LO default)'' a else a,
      \<lambda>a. if list_ex (\<lambda>m. py_in m (content_types_txt p)) [''image/png'', ''image/jpeg'']
           then hit 1 ''Lists extra image MIME types (often seen in LO)'' a else a,
      \<lambda>a. if py_in ''<vt:bool>0</vt:bool>'' (custom_props_txt p)
              \<or> py_in ''<vt:bool>1</vt:bool>'' (custom_props_txt p)
           then hit (2/10) ''Boolean serialization uses numeric form (LibreOffice style)'' a else a,
      \<lambda>a. if py_in ''vt:lpwstr'' (custom_props_txt p) \<and> py_in ''$Linux_'' (custom_props_txt p)
           then hit (3/10) ''AppVersion property includes LibreOffice/Linux signature'' a else a,
      \<lambda>a. if py_in ''schemas.openxmlformats.org/officeDocument/2006/bibliography'' (core_txt p)
              \<and> \<not> py_in ''schemas.microsoft.com/office'' (core_txt p)
           then hit (4/10) ''Open bibliography schema without Microsoft URIs (LO-style rewrite)'' a
           else a]"

definition lo_checks :: "zip \<Rightarrow> parts \<Rightarrow> acc" where
  "lo_checks zf p = finish (run_steps (lo_steps p))"

subsection \<open>Google Docs signals\<close>

definition is_lower_hex :: "char \<Rightarrow> bool" where
  "is_lower_hex c = (is_digit c \<or> (97 \<le> code c \<and> code c \<le> 102))"

definition gd_bool_attrs :: "parts \<Rightarrow> bool" where
  "gd_bool_attrs p =
     (py_in ''w:semiHidden w:val=\"1\"'' (styles_txt p) \<or> py_in ''w:unhideWhenUsed w:val=\"1\"'' (styles_txt p))"

definition gd_decimal_attrs :: "parts \<Rightarrow> bool" where
  "gd_decimal_attrs p =
     re_search (Seqs [Lit ''w:w=\"'', Many1 is_digit, Lit ''.'', Many1 is_digit, Lit ''\"'']) (styles_txt p)"

definition lower_hex :: "parts \<Rightarrow> bool" where
  "lower_hex p =
     re_search (Seqs [Lit ''w:color w:val=\"'', Times 6 is_lower_hex, Lit ''\"'']) (styles_txt p)"

definition has_symex :: "parts \<Rightarrow> bool" where
  "has_symex p = (py_in ''word/2015/wordml/symex'' (styles_txt p) \<or> py_in ''w16se'' (styles_txt p))"

definition gd_play_fonts :: "parts \<Rightarrow> bool" where
  "gd_play_fonts p =
     (re_search (Seqs [Lit ''w:font'', Many1 (\<lambda>c. c \<noteq> CHR ''>''), Lit ''name=\"Play\"'']) (font_txt p)
      \<or> py_in ''Play Bold'' (font_txt p))"

definition gd_roboto_fonts :: "parts \<Rightarrow> bool" where
  "gd_roboto_fonts p = list_ex (\<lambda>f. py_in f (font_txt p)) [''Roboto'', ''Noto Sans'', ''Noto Serif'']"

definition fonts_hit :: "parts \<Rightarrow> bool" where
  "fonts_hit p = (gd_play_fonts p \<or> gd_roboto_fonts p)"

definition gdocs_steps :: "parts \<Rightarrow> step list" where
  "gdocs_steps p =
     [\<lambda>a. if gd_bool_attrs p
           then hit 2 ''Boolean attributes serialized as w:val='1' (Google Docs pattern)'' a else a,
      \<lambda>a. if gd_decimal_attrs p
           then hit (3/2) ''Decimal-style numeric attributes (e.g., w:w='0.0') found'' a else a,
      \<lambda>a. if lower_hex p
           then remark ''Lowercase 6-digit hex color codes (weak Google Docs pattern)'' a else a,
      \<lambda>a. if has_symex p
           then remark ''Contains w16se:symex namespace (weak marker; Word may include)'' a else a,
      \<lambda>a. if gd_play_fonts p
           then hit 3 ''Contains Play / Play Bold fonts (Google bundle)'' a else a,
      \<lambda>a. if gd_roboto_fonts p
           then hit (3/2) ''Contains Roboto/Noto font families (Google pattern)'' a else a,
      \<lambda>a. if (lower_hex p \<or> has_symex p) \<and> (fonts_hit p \<or> fst a \<ge> 5/2)
           then (if has_symex p then bump (1/2) else id) ((if lower_hex p then bump (1/2) else id) a)
           else a]"

definition gdocs_checks :: "zip \<Rightarrow> parts \<Rightarrow> acc" where
  "gdocs_checks zf p = finish (run_steps (gdocs_steps p))"

subsection \<open>Apple Pages signals\<close>

definition pages_steps :: "parts \<Rightarrow> step list" where
  "pages_steps p =
     [\<lambda>a. if py_in ''Helvetica Neue'' (theme_txt p)
           then hit (9/2) ''Contains Helvetica Neue (Apple Pages default font)'' a else a,
      \<lambda>a. if py_in ''<a:theme'' (theme_txt p) \<and> py_in ''Office Theme'' (theme_txt p)
              \<and> \<not> py_in ''xmlns:thm15'' (theme_txt p)
           then hit (3/2) ''Missing thm15 theme namespace (Pages-style theme)'' a else a,
      \<lambda>a. if py_in ''<a:srgbClr'' (theme_txt p) \<and> \<not> py_in ''<a:sysClr'' (theme_txt p)
           then hit 1 ''Theme uses only <a:srgbClr> (no <a:sysClr>)'' a else a,
      \<lambda>a. if \<not> py_in ''<a:objectDefaults>'' (theme_txt p) \<or> \<not> py_in ''<a:extLst>'' (theme_txt p)
           then (if fst a \<ge> 3/2
                 then hit (1/2) ''No <a:objectDefaults> or <a:extLst> (weak Pages indicator)'' a
                 else a)
           else a,
      \<lambda>a. if re_search (Alt (Seqs [WordB, Lit ''Apple'', WordB]) (Seqs [WordB, Lit ''Pages'', WordB]))
                (app_txt p @ core_txt p)
           then hit (7/2) ''Explicit Apple/Pages marker in metadata'' a else a]"

definition pages_checks :: "zip \<Rightarrow> parts \<Rightarrow> acc" where
  "pages_checks zf p = finish (run_steps (pages_steps p))"

subsection \<open>Pandoc / programmatic signals\<close>

definition pandoc_steps :: "zip \<Rightarrow> parts \<Rightarrow> step list" where
  "pandoc_steps zf p =
     [\<lambda>a. if re_search (Lit ''pandoc'') (lower (app_txt p @ core_txt p))
           then hit 8 ''Application or core properties mention Pandoc'' a else a,
      \<lambda>a. if \<not> list_ex (\<lambda>t. py_in t (app_txt p)) [''Application'', ''AppVersion'', ''Company'']
              \<and> strip (app_txt p) \<noteq> []
           then hit (3/2) ''App properties minimal (likely programmatic generation)'' a else a,
      \<lambda>a. if re_search (Alt (Lit ''styleId=\"SourceCode\"'') (Lit ''styleId=\"VerbatimChar\"'')) (styles_txt p)
           then hit (5/2) ''Contains 'SourceCode' / 'VerbatimChar' styles (Pandoc hallmark)'' a else a,
      \<lambda>a. if re_search (Alt (Lit ''styleId=\"KeywordTok\"'')
                          (Alt (Lit ''styleId=\"StringTok\"'') (Lit ''styleId=\"CommentTok\"'')))
                (styles_txt p)
           then hit 2 ''Contains Pygments token styles (Pandoc code highlighting)'' a else a,
      \<lambda>a. if \<not> py_in ''xmlns:thm15'' (theme_txt p) \<and> py_in ''<a:srgbClr'' (theme_txt p)
              \<and> \<not> py_in ''<a:sysClr'' (theme_txt p)
           then hit (3/2) ''Theme lacks thm15 namespace, uses only sRGB colors (Pandoc minimal theme)'' a
           else a,
      \<lambda>a. if list_all (\<lambda>f. py_in f (font_txt p)) [''Calibri'', ''Cambria'']
              \<and> \<not> list_ex (\<lambda>x. py_in x (font_txt p)) [''Aptos'', ''Liberation'', ''Roboto'']
           then hit 1 ''Generic Calibri/Cambria font table (typical Pandoc default)'' a else a,
      \<lambda>a. if \<not> py_in ''rsidR'' (doc_txt p) \<and> \<not> py_in ''mc:Ignorable'' (doc_txt p)
           then hit 1 ''Document XML lacks Word-specific rsid and mc:Ignorable attributes'' a else a,
      \<lambda>a. if py_in ''<w:doNotSaveAsSingleFile'' (read_text_from_zip zf ''word/webSettings.xml'')
              \<and> \<not> py_in ''optimizeForBrowser'' (read_text_from_zip zf ''word/webSettings.xml'')
           then hit (8/10) ''Contains <w:doNotSaveAsSingleFile> without optimizeForBrowser (Pandoc default)'' a
           else a,
      \<lambda>a. if \<not> py_in ''<w:latentStyles'' (styles_txt p) \<and> py_in ''<w:styleId=\"Normal\"'' (styles_txt p)
           then hit (8/10) ''Missing <w:latentStyles> (common in Pandoc-generated DOCX)'' a else a,
      \<lambda>a. if py_count (doc_txt p) ''<w:r>'' < 2 * py_count (doc_txt p) ''<w:p>''
           then hit (8/10) ''Low <w:r>/<w:p> ratio (flattened run structure typical of Pandoc)'' a else a,
      \<lambda>a. if py_in ''<w:pPr>'' (doc_txt p)
              \<and> \<not> list_ex (\<lambda>k. py_in k (doc_txt p)) [''w:spacing'', ''w:ind'', ''w:contextualSpacing'']
           then hit (1/2) ''Paragraph properties minimal (no spacing/indent attributes)'' a else a,
      \<lambda>a. if py_in ''Lucida'' (font_txt p) \<and> \<not> py_in ''Cambria Math'' (font_txt p)
           then hit (1/2) ''Math font substitution (Lucida instead of Cambria Math)'' a else a,
      \<lambda>a. if list_ex (\<lambda>c. py_in c (theme_txt p))
                [''4F81BD'', ''C0504D'', ''9BBB59'', ''8064A2'', ''4BACC6'', ''F79646'']
           then hit (1/2) ''Classic Office 2007 color palette (Pandoc default theme)'' a else a,
      \<lambda>a. if re_search (Alt (Seqs [Lit ''<dc:creator'', Many is_space, Lit ''/>''])
                          (Seqs [Lit ''<cp:lastModifiedBy>'', Many is_space, Lit ''</cp:lastModifiedBy>'']))
                (core_txt p)
           then hit (1/2) ''Empty author/modified fields (metadata stripped by Pandoc)'' a else a]"

definition pandoc_checks :: "zip \<Rightarrow> parts \<Rightarrow> acc" where
  "pandoc_checks zf p = finish (run_steps (pandoc_steps zf p))"

subsection \<open>WordPad signals\<close>

definition wordpad_steps :: "parts \<Rightarrow> step list" where
  "wordpad_steps p =
     [\<lambda>a. if \<not> py_in ''/word/theme/theme1.xml'' (content_types_txt p)
              \<and> \<not> py_in ''/word/settings.xml'' (content_types_txt p)
              \<and> \<not> py_in ''/word/fontTable.xml'' (content_types_txt p)
           then hit 3 ''Content_Types.xml lacks theme/settings/fontTable overrides (WordPad pattern)'' a
           else a,
      \<lambda>a. if 0 < splitlines_len (styles_txt p) \<and> splitlines_len (styles_txt p) < 10
              \<and> py_in ''<w:styleId=\"Normal\"'' (styles_txt p)
           then hit 3 ''Tiny styles.xml with only 'Normal' style (WordPad hallmark)'' a else a,
      \<lambda>a. if py_in ''<w:document xmlns:w='' (doc_txt p) \<and> \<not> py_in ''xmlns:r='' (doc_txt p)
              \<and> \<not> py_in ''xmlns:mc='' (doc_txt p)
           then hit 3 ''Document XML uses only xmlns:w (minimal namespace set typical of WordPad)'' a
           else a,
      \<lambda>a. if app_txt p = [] \<and> core_txt p = []
           then hit 1 ''No app/core properties (WordPad omits docProps entirely)'' a else a]"

definition wordpad_checks :: "zip \<Rightarrow> parts \<Rightarrow> acc" where
  "wordpad_checks zf p = finish (run_steps (wordpad_steps p))"

subsection \<open>TextEdit signals\<close>

definition textedit_steps :: "parts \<Rightarrow> step list" where
  "textedit_steps p =
     [\<lambda>a. if py_in ''/word/theme/theme1.xml'' (content_types_txt p)
              \<and> \<not> py_in ''/word/styles.xml'' (content_types_txt p)
              \<and> \<not> py_in ''/word/settings.xml'' (content_types_txt p)
              \<and> \<not> py_in ''/word/fontTable.xml'' (content_types_txt p)
              \<and> \<not> py_in ''/word/numbering.xml'' (content_types_txt p)
           then hit 3 ''Has theme but lacks styles/settings/fontTable/numbering (TextEdit pattern)'' a
           else a,
      \<lambda>a. if startswith (strip (app_txt p)) ''<Properties'' \<and> \<not> py_in ''<Application>'' (app_txt p)
           then hit 3 ''app.xml is empty <Properties> with no <Application> tag (TextEdit hallmark)'' a
           else a,
      \<lambda>a. if py_in ''<cp:coreProperties'' (core_txt p) \<and> py_count (core_txt p) ''<dc:'' = 1
              \<and> \<not> py_in ''<lastModifiedBy>'' (core_txt p) \<and> \<not> py_in ''<revision>'' (core_txt p)
           then hit 2 ''core.xml uses cp: prefix and only dc:creator (TextEdit serialization)'' a
           else a,
      \<lambda>a. if py_in ''xmlns:w='' (doc_txt p)
              \<and> list_all (\<lambda>x. \<not> py_in x (doc_txt p))
                    [''xmlns:mc='', ''xmlns:w14='', ''xmlns:w15='', ''xmlns:w16='']
              \<and> py_in ''<w:rFonts w:ascii=\"Times\"'' (doc_txt p)
           then hit 2 ''document.xml limited to base namespaces and hardcoded Times font'' a else a,
      \<lambda>a. if py_in ''name=\"Default Theme\"'' (theme_txt p)
           then hit 1 ''Theme1.xml uses name='Default Theme' (TextEdit theme rewrite)'' a else a,
      \<lambda>a. if \<not> py_in ''/docProps/custom.xml'' (content_types_txt p)
              \<and> \<not> py_in ''/customXml/'' (content_types_txt p)
              \<and> \<not> py_in ''<Template>'' (app_txt p)
           then hit 1 ''No customXml or extended properties (TextEdit metadata purge)'' a else a]"

definition textedit_checks :: "zip \<Rightarrow> parts \<Rightarrow> acc" where
  "textedit_checks zf p = finish (run_steps (textedit_steps p))"

subsection \<open>Microsoft Word confidence\<close>

text \<open>
  The ordering heuristic on \<^verbatim>\<open>[Content_Types].xml\<close>. \<open>overrides\<close> lists the
  \<^verbatim>\<open>PartName\<close> of the children of the parsed manifest whose tag ends with
  \<^verbatim>\<open>Override\<close>; \<open>docprops_last\<close> is the last index of a \<^verbatim>\<open>/docProps/\<close> entry (-1 when
  there is none) and \<open>word_first\<close> the first index of a \<^verbatim>\<open>/word/\<close> entry. A manifest
  that does not parse raises inside the \<^verbatim>\<open>try\<close>, and the test is skipped.
\<close>

definition overrides :: "xml \<Rightarrow> string list" where
  "overrides rt =
     map (\<lambda>elem. get_attr elem ''PartName'') (filter (\<lambda>elem. endswith (tag elem) ''Override'') (children rt))"

definition docprops_last :: "string list \<Rightarrow> int" where
  "docprops_last ovs =
     (case filter (\<lambda>i. startswith (ovs ! i) ''/docProps/'') [0 ..< length ovs] of
        [] \<Rightarrow> -1
      | i # is \<Rightarrow> int (Max (set (i # is))))"

definition word_first :: "string list \<Rightarrow> nat option" where
  "word_first ovs = find (\<lambda>i. startswith (ovs ! i) ''/word/'') [0 ..< length ovs]"

definition docprops_before_word :: "(string \<Rightarrow> xml option) \<Rightarrow> parts \<Rightarrow> bool" where
  "docprops_before_word fromstring p =
     (case fromstring (content_types_txt p) of
        None \<Rightarrow> False
      | Some rt \<Rightarrow>
          ''/word/document.xml'' \<in> set (overrides rt)
          \<and> (case word_first (overrides rt) of
                None \<Rightarrow> False
              | Some first \<Rightarrow> docprops_last (overrides rt) \<ge> 0 \<and> docprops_last (overrides rt) < int first))"

definition word_steps :: "(string \<Rightarrow> xml option) \<Rightarrow> parts \<Rightarrow> score \<Rightarrow> score \<Rightarrow> score \<Rightarrow> step list" where
  "word_steps fromstring p lo_score gd_score pg_score =
     [\<lambda>a. (case application_val (app_xml p) of
              None \<Rightarrow> a
            | Some val \<Rightarrow>
                if py_in ''word'' val
                then hit 4 ''Application tag indicates Microsoft Word'' a else a),
      \<lambda>a. if py_in ''xmlns:thm15'' (theme_txt p)
           then hit (3/2) ''Theme includes thm15 namespace (common in Word)'' a else a,
      \<lambda>a. if py_in ''<a:sysClr'' (theme_txt p)
           then hit 1 ''Theme uses <a:sysClr> (Windows system color mapping)'' a else a,
      \<lambda>a. if py_in ''<w:panose1'' (font_txt p) \<or> py_in ''<w:sig'' (font_txt p)
           then hit 1 ''Font table includes <w:panose1> / <w:sig> fingerprints (Word)'' a else a,
      \<lambda>a. if re_search (Alt (Lit ''Heading1'') (Alt (Lit ''Heading2'') (Lit ''Heading3''))) (styles_txt p)
           then hit (8/10) ''Heading1-3 style cascade present (Word defaults)'' a else a,
      \<lambda>a. if lo_score < 4 \<and> gd_score < 4 \<and> pg_score < 4
           then hit (12/10) ''No strong non-Word indicators (boosting Word confidence)'' a else a,
      \<lambda>a. if docprops_before_word fromstring p
           then hit (- (3/10))
                  (''Override order in [Content_Types].xml shows docProps before /word/document.xml ''
                   @ ''(python-docx generation pattern; small deduction)'') a
           else a]"

definition word_checks :: "(string \<Rightarrow> xml option) \<Rightarrow> zip \<Rightarrow> parts \<Rightarrow> score \<Rightarrow> score \<Rightarrow> score \<Rightarrow> acc" where
  "word_checks fromstring zf p lo_score gd_score pg_score =
     finish (run_steps (word_steps fromstring p lo_score gd_score pg_score))"

subsection \<open>OnlyOffice signals\<close>

text \<open>
  The evidence texts of the source that hold a dash or an arrow beyond ASCII are written
  here with \<^verbatim>\<open>-\<close> and \<^verbatim>\<open>->\<close>. \<open>show_nat\<close> is the decimal text that an f-string puts
  for a non-negative integer.
\<close>

fun show_nat :: "nat \<Rightarrow> string" where
  "show_nat n =
     (if n < 10 then [char_of (48 + n)] else show_nat (n div 10) @ [char_of (48 + n mod 10)])"

definition not_gt :: "char \<Rightarrow> bool" where
  "not_gt c = (c \<noteq> CHR ''>'')"

definition is_upper_hex :: "char \<Rightarrow> bool" where
  "is_upper_hex c = ((65 \<le> code c \<and> code c \<le> 70) \<or> is_digit c)"

text \<open>
  \<^verbatim>\<open>onlyoffice_checks(doc_text, evidence)\<close> appends to the list it is given and returns
  the score; the model returns both. Two of its tests convert matched digits with
  \<^verbatim>\<open>int\<close> and can raise, so a test of this detector is a step that may fail; \<open>ok\<close>
  wraps a test that cannot.
\<close>

type_synonym fstep = "acc \<Rightarrow> error + acc"

definition ok :: "step \<Rightarrow> fstep" where
  "ok s a = Inr (s a)"

definition run_fsteps :: "acc \<Rightarrow> fstep list \<Rightarrow> error + acc" where
  "run_fsteps a0 steps = foldl and_then (Inr a0) steps"

definition onlyoffice_steps :: "string \<Rightarrow> fstep list" where
  "onlyoffice_steps doc_text =
     [\<lambda>a. (case first_int (\<lambda>val. val mod 1134 < 10)
                   (re_findall (Seqs [Lit ''<w:tblCellSpacing'', Many not_gt, Lit ''w:w=\"'',
                                      Group (Many1 is_digit), Lit ''\"'']) doc_text) of
              Inl e \<Rightarrow> Inl e
            | Inr None \<Rightarrow> Inr a
            | Inr (Some val) \<Rightarrow>
                Inr (hit 2 ''Table cell spacing -> doubled mm/twip conversion (OnlyOffice).'' a)),
      ok (\<lambda>a. if length (re_findall (Seqs [Lit ''<w:tblLayout'', Many not_gt, Lit ''w:type=\"fixed\"'']) doc_text) \<ge> 3
           then hit 2 (show_nat (length (re_findall
                          (Seqs [Lit ''<w:tblLayout'', Many not_gt, Lit ''w:type=\"fixed\"'']) doc_text))
                       @ '' tables forced to fixed layout (OnlyOffice default).'') a
           else a),
      ok (\<lambda>a. if re_search (Seqs [Lit ''<w:tblLook'', Many not_gt, Lit ''w:val=\"0'',
                               Cls (\<lambda>c. 52 \<le> code c \<and> code c \<le> 55), Times 2 is_upper_hex, Lit ''\"''])
                doc_text
           then hit 2 ''Nonstandard <w:tblLook> bitmask (OnlyOffice bit flag composition).'' a else a),
      ok (\<lambda>a. if re_search (Seqs [Lit ''<w:tblW'', Many not_gt, Lit ''>'', Many is_space, Lit ''<w:tblStyle''])
                doc_text
           then hit 1 ''<w:tblW> precedes <w:tblStyle> (OnlyOffice ordering).'' a else a),
      ok (\<lambda>a. if re_search (Seqs [Lit ''<w:tblBorders'', Many not_gt, Lit ''>'', Many is_space, Lit ''<w:tblLayout''])
                doc_text
           then hit 1 ''<w:tblBorders> precedes <w:tblLayout> (OnlyOffice ordering).'' a else a),
      \<lambda>a. (case first_int (\<lambda>v. v mod 5 \<noteq> 0 \<and> v mod 5 \<noteq> 5 \<and> v mod 10 \<noteq> 0)
                   (re_findall (Seqs [Lit ''w:w=\"'', Group (Many1 is_digit), Lit ''\"'']) doc_text) of
              Inl e \<Rightarrow> Inl e
            | Inr None \<Rightarrow> Inr a
            | Inr (Some v) \<Rightarrow>
                Inr (hit 1 (''Non-rounded twip '' @ show_nat v
                            @ '' - float->int mm rounding (OnlyOffice).'') a)),
      ok (\<lambda>a. if py_in ''<w:tblLayout'' doc_text \<and> \<not> py_in ''mc:Ignorable'' doc_text
           then hit 1 ''tblLayout present but missing mc:Ignorable (OnlyOffice omission).'' a else a),
      ok (\<lambda>a. if re_search (Seqs [Lit ''<w:'',
                               Alt (Lit ''tbl'') (Alt (Lit ''tr'') (Alt (Lit ''tc'') (Alt (Lit ''p'') (Lit ''r'')))),
                               Lit ''PrChange'']) doc_text
              \<and> \<not> py_in ''<w:trackChange'' doc_text
           then hit 2 ''Inline *PrChange blocks without trackChange (OnlyOffice-style revisions).'' a
           else a),
      ok (\<lambda>a. if py_in ''<w:numId w:val=\"0\"'' doc_text \<and> \<not> py_in ''<w:abstractNumId'' doc_text
           then hit 1 ''<w:numId w:val='0'> without abstractNum (OnlyOffice numbering map leak).'' a
           else a),
      ok (\<lambda>a. if py_in ''<w:lvlOverride'' doc_text \<and> \<not> py_in ''<w:startOverride'' doc_text
           then hit 1 ''<w:lvlOverride> without startOverride (OnlyOffice list export artifact).'' a
           else a),
      ok (\<lambda>a. if py_in ''<w:headerReference'' doc_text \<and> \<not> py_in ''<w:evenAndOddHeaders'' doc_text
           then hit 1 ''Header refs but no evenAndOddHeaders - pre-v5 OnlyOffice schema.'' a else a),
      ok (\<lambda>a. if py_in ''<w:sectPr'' doc_text \<and> \<not> py_in ''<w:titlePg'' doc_text
           then hit 1 ''Sections present but missing titlePg - older OnlyOffice export (<v5).'' a
           else a),
      ok (\<lambda>a. if re_search (Seqs [Lit ''itemProps'', Many1 is_digit, Lit ''.xml'']) doc_text
              \<or> re_search (Alt (Lit ''formid='') (Alt (Lit ''glossaryid='') (Lit ''jsaproject'')))
                   (lower doc_text)
           then hit 2 ''References to OForm/Glossary/JSA - OnlyOffice extensions.'' a else a),
      ok (\<lambda>a. if \<not> py_in ''xmlns:wps'' doc_text \<and> py_in ''drawing'' doc_text
           then hit 1 ''Missing wps/wpg drawing namespaces (OnlyOffice omission).'' a else a)]"

definition onlyoffice_checks :: "string \<Rightarrow> string list \<Rightarrow> error + acc" where
  "onlyoffice_checks doc_text evidence0 =
     and_then (run_fsteps (0, evidence0) (onlyoffice_steps doc_text)) (\<lambda>a. Inr (finish a))"

subsection \<open>Word variants: desktop and web\<close>

text \<open>
  The two buckets \<^verbatim>\<open>word_web\<close> and \<^verbatim>\<open>word_desktop\<close> are a pair of accumulators; a
  test writes into the one it supports.
\<close>

definition web :: "step \<Rightarrow> acc \<times> acc \<Rightarrow> acc \<times> acc" where
  "web s v = (s (fst v), snd v)"

definition desktop :: "step \<Rightarrow> acc \<times> acc \<Rightarrow> acc \<times> acc" where
  "desktop s v = (fst v, s (snd v))"

definition word_variants_steps :: "parts \<Rightarrow> (acc \<times> acc \<Rightarrow> acc \<times> acc) list" where
  "word_variants_steps p =
     [\<lambda>v. if py_in ''Microsoft Word for the web'' (app_txt p)
           then web (hit 6 ''<Application>Microsoft Word for the web</Application> detected'') v else v,
      \<lambda>v. if py_in ''Microsoft Office Word'' (app_txt p)
           then desktop (hit 6 ''<Application>Microsoft Office Word</Application> detected'') v else v,
      \<lambda>v. if py_in ''Aptos'' (font_txt p)
           then desktop (hit 2 ''Aptos/Aptos Display font (new Word 2024 default)'') v else v,
      \<lambda>v. if py_in ''Calibri'' (font_txt p) \<and> \<not> py_in ''Aptos'' (font_txt p)
           then web (hit (3/2) ''Legacy Calibri font (Word Web or pre-2024 Word)'') v else v,
      \<lambda>v. if py_in ''xmlns:thm15'' (theme_txt p)
           then web (hit 1 ''Theme includes thm15 namespace (Word Web)'') v else v,
      \<lambda>v. if py_in ''w16du'' (theme_txt p) \<or> py_in ''w16du'' (settings_txt p)
           then desktop (hit (3/2) ''Modern WordML namespaces (Word 2023/2024 Desktop)'') v else v,
      \<lambda>v. if py_count (doc_txt p) ''<w:r>'' > 3 * py_count (doc_txt p) ''<w:p>''
           then web (hit (3/2) ''Highly fragmented <w:r> structure (Word for Web pattern)'') v
           else desktop (hit (1/2) ''Compact run structure (Desktop Word)'') v,
      \<lambda>v. if py_in ''<cp:revision>'' (core_txt p)
           then desktop (hit 1 ''Core properties include <cp:revision> (Desktop Word)'') v
           else web (hit (1/2) ''No revision property (Word Web minimal metadata)'') v]"

definition word_variants_checks :: "zip \<Rightarrow> parts \<Rightarrow> scoreboard \<times> (string \<times> string list) list" where
  "word_variants_checks zf p =
     (let v = foldl (\<lambda>v s. s v) ((0, []), (0, [])) (word_variants_steps p)
      in ([(''word_web'', min (fst (fst v)) 10), (''word_desktop'', min (fst (snd v)) 10)],
          [(''word_web'', snd (fst v)), (''word_desktop'', snd (snd v))]))"

subsection \<open>Speculative detectors\<close>

definition name_steps :: "string \<Rightarrow> step list" where
  "name_steps name =
     [\<lambda>a. if startswith name ''webextensions/''
           then hit 3 (''Contains '' @ name @ '' (Word 365 Web add-in structure)'') a else a,
      \<lambda>a. if py_in ''sharepoint.com'' (lower name)
           then hit 5 (''References SharePoint URL in relationships: '' @ name) a else a]"

definition wordaspect_steps :: "zip \<Rightarrow> step list" where
  "wordaspect_steps zf =
     concat (map name_steps (namelist zf))
     @ [\<lambda>a. if re_search (Seqs [Lit ''https://'', Many (\<lambda>c. code c \<noteq> 10), Lit ''sharepoint.com''])
                  (lower (read_text_from_zip zf ''docProps/core.xml''))
             then hit 4 ''SharePoint reference found in core properties'' a else a,
        \<lambda>a. if re_search (Lit ''Microsoft Office Word'') (read_text_from_zip zf ''docProps/core.xml'')
             then hit 1 ''Application tag suggests Office Online editor'' a else a]"

definition check_speculative_wordaspect :: "zip \<Rightarrow> acc" where
  "check_speculative_wordaspect zf = finish (run_steps (wordaspect_steps zf))"

record xml_bundle =
  app :: string
  core :: string
  font :: string
  styles :: string
  theme :: string
  content :: string

text \<open>
  The state of \<^verbatim>\<open>check_speculative_lomarkeshare\<close>: the dict \<^verbatim>\<open>scores\<close> of the seven
  engines and the list \<^verbatim>\<open>evidences\<close> of (engine, text) pairs.
\<close>

type_synonym engines = "scoreboard \<times> (string \<times> string) list"

definition add_score :: "string \<Rightarrow> score \<Rightarrow> scoreboard \<Rightarrow> scoreboard" where
  "add_score key w sc = map (\<lambda>kv. if fst kv = key then (fst kv, snd kv + w) else kv) sc"

definition engine_hit :: "string \<Rightarrow> score \<Rightarrow> string \<Rightarrow> string \<Rightarrow> engines \<Rightarrow> engines" where
  "engine_hit key w engine e st = (add_score key w (fst st), snd st @ [(engine, e)])"

definition score_of :: "scoreboard \<Rightarrow> string \<Rightarrow> score" where
  "score_of sc key = (case map_of sc key of None \<Rightarrow> 0 | Some v \<Rightarrow> v)"

definition lomarkeshare_steps :: "xml_bundle \<Rightarrow> (engines \<Rightarrow> engines) list" where
  "lomarkeshare_steps x =
     [\<lambda>st. if list_ex (\<lambda>y. py_in y (lower (app x @ core x))) [''wps'', ''kingsoft'', ''wps office'']
            then engine_hit ''wps'' 8 ''WPS Office'' ''Application metadata contains WPS/Kingsoft signature'' st
            else st,
      \<lambda>st. if py_in ''schemas.wps.cn'' (app x @ content x @ styles x)
            then engine_hit ''wps'' 5 ''WPS Office'' ''Contains Chinese WPS-specific XML namespace'' st
            else st,
      \<lambda>st. if list_ex (\<lambda>f. py_in f (font x)) [''SimSun'', ''KaiTi'', ''FangSong'']
            then engine_hit ''wps'' 2 ''WPS Office'' ''CJK font families common in WPS Office'' st else st,
      \<lambda>st. if py_in ''abiword'' (lower (app x @ core x))
            then engine_hit ''abiword'' 8 ''AbiWord'' ''Application tag or creator field mentions AbiWord'' st
            else st,
      \<lambda>st. if \<not> py_in ''<a:theme'' (theme x) \<and> py_in ''<w:docDefaults'' (styles x)
            then engine_hit ''abiword'' 3 ''AbiWord'' ''No theme.xml but includes simple docDefaults'' st
            else st,
      \<lambda>st. if py_in ''styleId=\"Normal\"'' (styles x) \<and> \<not> py_in ''Heading1'' (styles x)
            then engine_hit ''abiword'' 1 ''AbiWord''
                   ''Single 'Normal' style without headings (AbiWord pattern)'' st
            else st,
      \<lambda>st. if py_in ''calligra'' (lower (app x @ core x @ content x))
            then engine_hit ''calligra'' 8 ''Calligra Words'' ''Application metadata indicates Calligra Words'' st
            else st,
      \<lambda>st. if \<not> py_in ''<w:compatSetting'' (content x) \<and> py_in ''koffice'' (lower (app x @ core x))
            then engine_hit ''calligra'' 2 ''Calligra Words'' ''No compatSetting + legacy KOffice marker'' st
            else st,
      \<lambda>st. if py_in ''wordpad'' (lower (app x @ core x))
            then engine_hit ''wordpad'' 8 ''WordPad'' ''Application tag indicates WordPad'' st else st,
      \<lambda>st. if \<not> py_in ''word/theme/theme1.xml'' (content x) \<and> py_in ''<w:styleId=\"Normal\"'' (styles x)
               \<and> \<not> py_in ''<w:style'' (drop 500 (content x))
            then engine_hit ''wordpad'' 3 ''WordPad'' ''No theme and only a 'Normal' style (WordPad pattern)'' st
            else st,
      \<lambda>st. if py_in ''textmaker'' (lower (app x @ core x @ content x))
            then engine_hit ''softmaker'' 8 ''TextMaker'' ''Application metadata includes TextMaker'' st
            else st,
      \<lambda>st. if py_in ''SoftMaker Office'' (core x @ content x)
            then engine_hit ''softmaker'' 6 ''TextMaker'' ''Custom props mention SoftMaker Office'' st
            else st,
      \<lambda>st. if list_ex (\<lambda>y. py_in y (lower (app x @ core x @ content x)))
                 [''pandoc'', ''docx4j'', ''aspose'', ''poi'', ''python-docx'']
            then engine_hit ''programmatic'' 8 ''Programmatic'' ''Metadata references Pandoc/docx4j/Aspose'' st
            else st,
      \<lambda>st. if \<not> list_ex (\<lambda>f. py_in f (app x @ core x @ content x)) [''Application'', ''AppVersion'', ''Company'']
            then engine_hit ''programmatic'' 2 ''Programmatic'' ''No app metadata tags (generated by library)'' st
            else st,
      \<lambda>st. if \<not> py_in ''<w:themeFontLang'' (styles x) \<and> py_in ''<w:lang'' (content x)
            then engine_hit ''programmatic'' (3/2) ''Programmatic''
                   ''Basic language tags without theme references (minimal DOCX structure)'' st
            else st,
      \<lambda>st. if py_in ''onlyoffice'' (lower (app x @ core x @ content x))
            then engine_hit ''onlyoffice'' 8 ''OnlyOffice'' ''Application metadata references OnlyOffice'' st
            else st,
      \<lambda>st. if py_in ''onlyoffice.com/schema'' (content x)
            then engine_hit ''onlyoffice'' 4 ''OnlyOffice'' ''Contains OnlyOffice custom schema URI'' st
            else st,
      \<lambda>st. if \<not> py_in ''<w:latentStyles'' (styles x)
            then engine_hit ''onlyoffice'' (3/2) ''OnlyOffice''
                   ''Missing latentStyles section (common in OnlyOffice exports)'' st
            else st]"

text \<open>
  After these tests \<^verbatim>\<open>onlyoffice_checks\<close> runs on the document text with a fresh
  evidence list; a ValueError from it is not caught. A score of at least 2 is added to the
  OnlyOffice score, clamped at 10, and its evidence is appended. At the end every score
  is clamped at 10.
\<close>

definition add_onlyoffice :: "acc \<Rightarrow> engines \<Rightarrow> engines" where
  "add_onlyoffice oo st =
     (if fst oo \<ge> 2
      then (map (\<lambda>kv. if fst kv = ''onlyoffice'' then (fst kv, min 10 (snd kv + fst oo)) else kv)
              (fst st),
            snd st @ map (\<lambda>e. (''OnlyOffice'', e)) (snd oo))
      else st)"

definition normalize_engines :: "engines \<Rightarrow> engines" where
  "normalize_engines st = (map (\<lambda>kv. (fst kv, min (snd kv) 10)) (fst st), snd st)"

definition check_speculative_lomarkeshare :: "xml_bundle \<Rightarrow> error + engines" where
  "check_speculative_lomarkeshare x =
     and_then (onlyoffice_checks (content x) [])
       (\<lambda>oo. Inr (normalize_engines
                    (add_onlyoffice oo
                       (foldl (\<lambda>st s. s st)
                          ([(''wps'', 0), (''onlyoffice'', 0), (''abiword'', 0), (''calligra'', 0),
                            (''wordpad'', 0), (''softmaker'', 0), (''programmatic'', 0)], [])
                          (lomarkeshare_steps x)))))"

subsection \<open>Final verdict logic\<close>

text \<open>
  \<^verbatim>\<open>label(key)\<close> indexes a dict literal, so an unknown key raises KeyError.
\<close>

definition label_table :: "(string \<times> string) list" where
  "label_table =
     [(''libreoffice'', ''LibreOffice''),
      (''google_docs'', ''Google Docs''),
      (''apple_pages'', ''Apple Pages''),
      (''word'', ''Microsoft Word''),
      (''pandoc'', ''Pandoc / programmatic''),
      (''wordpad'', ''WordPad''),
      (''textedit'', ''TextEdit'')]"

definition label :: "string \<Rightarrow> error + string" where
  "label key = (case map_of label_table key of None \<Rightarrow> Inl KeyError | Some l \<Rightarrow> Inr l)"

text \<open>
  \<^verbatim>\<open>{k: v for k, v in scores.items() if k != "word"}\<close>: the comprehension keeps the
  insertion order of the entries it retains.
\<close>

definition non_word :: "scoreboard \<Rightarrow> scoreboard" where
  "non_word scores = filter (\<lambda>kv. fst kv \<noteq> ''word'') scores"

text \<open>
  \<^verbatim>\<open>max(non_word, key=non_word.get)\<close>: Python's \<^verbatim>\<open>max\<close> keeps the first item and
  replaces it only by an item whose key is strictly greater; on an empty dict it raises
  ValueError (here \<open>None\<close>). The keys of a dict are distinct, so the entry carries the
  value that \<^verbatim>\<open>non_word.get\<close> returns.
\<close>

definition keep_greater :: "string \<times> score \<Rightarrow> string \<times> score \<Rightarrow> string \<times> score" where
  "keep_greater best kv = (if snd kv > snd best then kv else best)"

fun max_key :: "scoreboard \<Rightarrow> (string \<times> score) option" where
  "max_key [] = None"
| "max_key (kv # rest) = Some (foldl keep_greater kv rest)"

definition choose_verdict :: "scoreboard \<Rightarrow> error + string" where
  "choose_verdict scores =
     (case max_key (non_word scores) of
        None \<Rightarrow> Inl ValueError
      | Some (top_origin, top_val) \<Rightarrow>
          (case map_of scores ''word'' of
             None \<Rightarrow> Inl KeyError
           | Some word_val \<Rightarrow>
               if top_val \<ge> 7 then
                 (case label top_origin of
                    Inl e \<Rightarrow> Inl e
                  | Inr l \<Rightarrow> Inr (''Definitely '' @ l @ '' export''))
               else if top_val \<ge> 5 then
                 (case label top_origin of
                    Inl e \<Rightarrow> Inl e
                  | Inr l \<Rightarrow> Inr (''Likely '' @ l @ '' export or mixed''))
               else if word_val \<ge> 7 \<and> top_val < 4 then Inr ''Pure Microsoft Word''
               else if word_val \<ge> 5 \<and> top_val < 5 then
                 Inr ''Probably Microsoft Word (minor artifacts present)''
               else Inr ''Inconclusive / mixed''))"

text \<open>
  The dict literal that \<^verbatim>\<open>score_docx\<close> builds from the seven detector scores, in the
  order of the source.
\<close>

definition mk_scores :: "score \<Rightarrow> score \<Rightarrow> score \<Rightarrow> score \<Rightarrow> score \<Rightarrow> score \<Rightarrow> score \<Rightarrow> scoreboard" where
  "mk_scores wd lo gd pg pd wp te =
     [(''word'', wd),
      (''libreoffice'', lo),
      (''google_docs'', gd),
      (''apple_pages'', pg),
      (''pandoc'', pd),
      (''wordpad'', wp),
      (''textedit'', te)]"

text \<open>
  A ScoreBoard is a dict with the seven origins as keys, in the insertion order of that
  literal.
\<close>

definition is_scoreboard :: "scoreboard \<Rightarrow> bool" where
  "is_scoreboard sb =
     (map fst sb = [''word'', ''libreoffice'', ''google_docs'', ''apple_pages'', ''pandoc'',
                    ''wordpad'', ''textedit''])"

subsection \<open>Scoring engine\<close>

record report =
  scores :: scoreboard
  verdict :: string
  taint :: score
  evidence :: "(string \<times> string list) list"
  word_variants :: "scoreboard \<times> (string \<times> string list) list"
  speculative_word_web :: acc
  speculative_other_engines :: engines

text \<open>
  The dict \<^verbatim>\<open>parts\<close>: the six parsed parts are read first, in the order of the dict
  literal, then the nine texts.
\<close>

definition read_parts :: "(string \<Rightarrow> xml option) \<Rightarrow> zip \<Rightarrow> error + parts" where
  "read_parts fromstring zf =
     and_then (read_xml_from_zip fromstring zf ''docProps/app.xml'') (\<lambda>app_x.
     and_then (read_xml_from_zip fromstring zf ''word/fontTable.xml'') (\<lambda>font_x.
     and_then (read_xml_from_zip fromstring zf ''word/document.xml'') (\<lambda>doc_x.
     and_then (read_xml_from_zip fromstring zf ''word/styles.xml'') (\<lambda>styles_x.
     and_then (read_xml_from_zip fromstring zf ''word/settings.xml'') (\<lambda>settings_x.
     and_then (read_xml_from_zip fromstring zf ''word/theme/theme1.xml'') (\<lambda>theme_x.
       Inr \<lparr>app_xml = app_x,
            font_xml = font_x,
            doc_xml = doc_x,
            styles_xml = styles_x,
            settings_xml = settings_x,
            theme_xml = theme_x,
            content_types_txt = read_text_from_zip zf ''[Content_Types].xml'',
            custom_props_txt = read_text_from_zip zf ''docProps/custom.xml'',
            core_txt = read_text_from_zip zf ''docProps/core.xml'',
            app_txt = read_text_from_zip zf ''docProps/app.xml'',
            font_txt = read_text_from_zip zf ''word/fontTable.xml'',
            doc_txt = read_text_from_zip zf ''word/document.xml'',
            styles_txt = read_text_from_zip zf ''word/styles.xml'',
            settings_txt = read_text_from_zip zf ''word/settings.xml'',
            theme_txt = read_text_from_zip zf ''word/theme/theme1.xml''\<rparr>))))))"

text \<open>
  The body of \<^verbatim>\<open>score_docx\<close> once \<^verbatim>\<open>parts\<close> is built: the detectors in the order of
  the source, the dict \<^verbatim>\<open>scores\<close>, the verdict, the taint and the speculative checks.
  The last of these can raise ValueError, and then no report is returned.
\<close>

definition score_parts :: "(string \<Rightarrow> xml option) \<Rightarrow> zip \<Rightarrow> parts \<Rightarrow> error + report" where
  "score_parts fromstring zf p =
     (let lo = lo_checks zf p;
          gd = gdocs_checks zf p;
          pg = pages_checks zf p;
          pd = pandoc_checks zf p;
          wd = word_checks fromstring zf p (fst lo) (fst gd) (fst pg);
          wv = word_variants_checks zf p;
          wp = wordpad_checks zf p;
          te = textedit_checks zf p;
          sc = mk_scores (fst wd) (fst lo) (fst gd) (fst pg) (fst pd) (fst wp) (fst te)
      in and_then (choose_verdict sc) (\<lambda>v.
           let ev = [(''word'', snd wd),
                     (''libreoffice'', snd lo),
                     (''google_docs'', snd gd),
                     (''apple_pages'', snd pg),
                     (''pandoc'', snd pd),
                     (''wordpad'', snd wp),
                     (''textedit'', snd te)];
               taint_like = max (fst lo) (max (fst gd) (max (fst pg) (fst pd)));
               wordweb = check_speculative_wordaspect zf
           in and_then (check_speculative_lomarkeshare
                          \<lparr>app = app_txt p,
                           core = core_txt p,
                           font = font_txt p,
                           styles = styles_txt p,
                           theme = theme_txt p,
                           content = doc_txt p\<rparr>) (\<lambda>lo_extras.
                Inr \<lparr>scores = sc,
                     verdict = v,
                     taint = taint_like,
                     evidence = ev,
                     word_variants = wv,
                     speculative_word_web = wordweb,
                     speculative_other_engines = lo_extras\<rparr>)))"

text \<open>
  \<^verbatim>\<open>score_docx\<close> on an archive that \<^verbatim>\<open>zipfile.ZipFile(path)\<close> has opened.
\<close>

definition score_docx :: "(string \<Rightarrow> xml option) \<Rightarrow> zip \<Rightarrow> error + report" where
  "score_docx fromstring zf = and_then (read_parts fromstring zf) (score_parts fromstring zf)"


subsection \<open>Reading a report\<close>

definition evidence_of :: "report \<Rightarrow> string \<Rightarrow> string list" where
  "evidence_of r key = (case map_of (evidence r) key of None \<Rightarrow> [] | Some e \<Rightarrow> e)"

section \<open>Notions of the specification\<close>

text \<open>
  The ScoreBoard and the verdict as the seven primary detectors alone give them: this
  function calls neither the variant classifier nor a speculative detector.
\<close>

definition primary_parts :: "(string \<Rightarrow> xml option) \<Rightarrow> zip \<Rightarrow> parts \<Rightarrow> error + scoreboard \<times> string" where
  "primary_parts fromstring zf p =
     (let sc = mk_scores
                 (fst (word_checks fromstring zf p
                         (fst (lo_checks zf p)) (fst (gdocs_checks zf p)) (fst (pages_checks zf p))))
                 (fst (lo_checks zf p))
                 (fst (gdocs_checks zf p))
                 (fst (pages_checks zf p))
                 (fst (pandoc_checks zf p))
                 (fst (wordpad_checks zf p))
                 (fst (textedit_checks zf p))
      in and_then (choose_verdict sc) (\<lambda>v. Inr (sc, v)))"

definition primary_scores :: "(string \<Rightarrow> xml option) \<Rightarrow> zip \<Rightarrow> error + scoreboard \<times> string" where
  "primary_scores fromstring zf = and_then (read_parts fromstring zf) (primary_parts fromstring zf)"



text \<open>
  The kinds of test a detector runs. A test weighted with \<open>w\<close> leaves the score and the
  evidence as they are when it does not pass, and when it passes it adds the non-zero
  weight \<open>w\<close> and appends exactly one evidence item. An evidence-only test appends one
  item when it passes and never adds weight.
\<close>

definition weighted_with :: "score \<Rightarrow> step \<Rightarrow> bool" where
  "weighted_with w s = (w \<noteq> 0 \<and> (\<exists>e. \<forall>a. s a = a \<or> s a = hit w e a))"

definition evidence_only_test :: "step \<Rightarrow> bool" where
  "evidence_only_test s = (\<exists>e. \<forall>a. s a = a \<or> s a = remark e a)"

section \<open>Example packages\<close>

text \<open>
  Small archives and part bundles on which the theorems below are evaluated. A parsed
  part is given with its text, for the table of \<open>parser_of\<close>.
\<close>

definition empty_parts :: parts where
  "empty_parts =
     \<lparr>app_xml = None, font_xml = None, doc_xml = None, styles_xml = None, settings_xml = None,
      theme_xml = None, content_types_txt = [], custom_props_txt = [], core_txt = [],
      app_txt = [], font_txt = [], doc_txt = [], styles_txt = [], settings_txt = [],
      theme_txt = []\<rparr>"

definition app_libreoffice :: "string \<times> xml" where
  "app_libreoffice =
     (''<Properties><Application>LibreOffice</Application></Properties>'',
      Elem ''Properties'' [] None [Elem ''Application'' [] (Some ''LibreOffice'') []])"

definition manifest_docprops_first :: "string \<times> xml" where
  "manifest_docprops_first =
     (''<Types><Override PartName=\"/docProps/app.xml\"/><Override PartName=\"/word/document.xml\"/></Types>'',
      Elem ''Types'' [] None
        [Elem ''Override'' [(''PartName'', ''/docProps/app.xml'')] None [],
         Elem ''Override'' [(''PartName'', ''/word/document.xml'')] None []])"

definition generated_zip :: zip where
  "generated_zip =
     [(''[Content_Types].xml'', fst manifest_docprops_first),
      (''docProps/app.xml'', fst app_libreoffice)]"

definition font_table_plain :: "string \<times> xml" where
  "font_table_plain = (''<fonts/>'', Elem ''fonts'' [] None [])"

definition pandoc_core_zip :: zip where
  "pandoc_core_zip = [(''docProps/core.xml'', ''pandoc'')]"

definition weak_styles :: string where
  "weak_styles = ''w:color w:val=\"00ff00\" w16se''"


section \<open>Properties of the verdict reducer\<close>

lemma keep_greater_snd: "snd (keep_greater b x) = max (snd b) (snd x)"
  by (simp add: keep_greater_def max_def)

lemma find_first_max:
  "find (\<lambda>kv. snd kv = Max (snd ` set (b # xs))) (b # xs) = Some (foldl keep_greater b xs)"
proof (induction xs arbitrary: b)
  case Nil
  show ?case by simp
next
  case (Cons x xs)
  define b' where "b' = keep_greater b x"
  define M where "M = Max (snd ` set (b' # xs))"
  have M: "Max (snd ` set (b # x # xs)) = M"
  proof (cases "xs = []")
    case True
    then show ?thesis by (simp add: M_def b'_def keep_greater_snd)
  next
    case False
    then show ?thesis
      by (simp add: M_def b'_def keep_greater_snd max.assoc)
  qed
  have ge: "snd b' \<le> M" unfolding M_def by (rule Max_ge) auto
  have IH: "find (\<lambda>kv. snd kv = M) (b' # xs) = Some (foldl keep_greater b' xs)"
    unfolding M_def by (rule Cons.IH)
  have goal: "find (\<lambda>kv. snd kv = M) (b # x # xs) = Some (foldl keep_greater b' xs)"
  proof (cases "snd x > snd b")
    case True
    then have b': "b' = x" by (simp add: b'_def keep_greater_def)
    from True ge b' have "snd b \<noteq> M" by simp
    with IH b' show ?thesis by simp
  next
    case False
    then have b': "b' = b" by (simp add: b'_def keep_greater_def)
    show ?thesis
    proof (cases "snd b = M")
      case True
      with IH b' show ?thesis by simp
    next
      case neq: False
      with ge b' have "snd b < M" by simp
      with False have "snd x \<noteq> M" by simp
      with IH b' neq show ?thesis by simp
    qed
  qed
  show ?case unfolding M using goal by (simp add: b'_def)
qed

lemma max_key_find:
  "nw \<noteq> [] \<Longrightarrow> max_key nw = find (\<lambda>kv. snd kv = Max (snd ` set nw)) nw"
proof (cases nw)
  case Nil
  assume "nw \<noteq> []"
  with Nil show ?thesis by simp
next
  case (Cons b xs)
  show ?thesis unfolding Cons max_key.simps by (rule find_first_max [symmetric])
qed

lemma non_word_mk_scores:
  "non_word (mk_scores wd lo gd pg pd wp te) =
     [(''libreoffice'', lo), (''google_docs'', gd), (''apple_pages'', pg),
      (''pandoc'', pd), (''wordpad'', wp), (''textedit'', te)]"
  by (simp add: non_word_def mk_scores_def)

lemma find_SomeD: "find P xs = Some x \<Longrightarrow> P x \<and> x \<in> set xs"
  by (induction xs) (auto split: if_splits)

lemma top_of_mk_scores:
  "\<exists>top_origin l. max_key (non_word (mk_scores wd lo gd pg pd wp te))
        = Some (top_origin, Max {lo, gd, pg, pd, wp, te})
     \<and> label top_origin = Inr l"
proof -
  let ?nw = "non_word (mk_scores wd lo gd pg pd wp te)"
  have ne: "?nw \<noteq> []" by (simp add: non_word_mk_scores)
  have img: "snd ` set ?nw = {lo, gd, pg, pd, wp, te}" by (simp add: non_word_mk_scores)
  obtain top where "max_key ?nw = Some top"
    using ne by (cases ?nw) auto
  then obtain k v where kv: "max_key ?nw = Some (k, v)"
    by (cases top) auto
  then have f: "find (\<lambda>kv. snd kv = Max {lo, gd, pg, pd, wp, te}) ?nw = Some (k, v)"
    using max_key_find [OF ne] img by simp
  from find_SomeD [OF f] have v: "v = Max {lo, gd, pg, pd, wp, te}" and "(k, v) \<in> set ?nw"
    by auto
  then have "k \<in> {''libreoffice'', ''google_docs'', ''apple_pages'', ''pandoc'', ''wordpad'', ''textedit''}"
    unfolding non_word_mk_scores by auto
  then have "\<exists>l. label k = Inr l"
    by (auto simp: label_def label_table_def)
  with kv v show ?thesis by blast
qed

lemma choose_verdict_mk_scores:
  assumes "max_key (non_word (mk_scores wd lo gd pg pd wp te)) = Some (top_origin, top_val)"
    and "label top_origin = Inr l"
  shows "choose_verdict (mk_scores wd lo gd pg pd wp te) =
     Inr (if top_val \<ge> 7 then ''Definitely '' @ l @ '' export''
          else if top_val \<ge> 5 then ''Likely '' @ l @ '' export or mixed''
          else if wd \<ge> 7 \<and> top_val < 4 then ''Pure Microsoft Word''
          else if wd \<ge> 5 \<and> top_val < 5 then ''Probably Microsoft Word (minor artifacts present)''
          else ''Inconclusive / mixed'')"
proof -
  have w: "map_of (mk_scores wd lo gd pg pd wp te) ''word'' = Some wd"
    by (simp add: mk_scores_def)
  show ?thesis
    using assms w by (simp add: choose_verdict_def)
qed

lemma is_scoreboard_mk_scores:
  "is_scoreboard sb \<Longrightarrow> \<exists>wd lo gd pg pd wp te. sb = mk_scores wd lo gd pg pd wp te"
  unfolding is_scoreboard_def mk_scores_def
  by (auto simp: map_eq_Cons_conv)

lemma choose_verdict_total:
  "\<exists>v. choose_verdict (mk_scores wd lo gd pg pd wp te) = Inr v"
proof -
  obtain top_origin l where
    "max_key (non_word (mk_scores wd lo gd pg pd wp te)) = Some (top_origin, Max {lo, gd, pg, pd, wp, te})"
    "label top_origin = Inr l"
    using top_of_mk_scores by blast
  then show ?thesis
    by (simp only: choose_verdict_mk_scores) blast
qed



text \<open>
  C8. The verdict reducer is total on ScoreBoards and a function of the mapping alone:
  two ScoreBoards with the same origin-to-score mapping get the same label, and a label is
  always returned.
\<close>

theorem choose_verdict_pure_total:
  assumes "is_scoreboard a" and "is_scoreboard b" and "map_of a = map_of b"
  shows "choose_verdict a = choose_verdict b \<and> (\<exists>v. choose_verdict a = Inr v)"
proof -
  from assms(1) obtain wd lo gd pg pd wp te where a: "a = mk_scores wd lo gd pg pd wp te"
    using is_scoreboard_mk_scores by blast
  from assms(2) obtain wd' lo' gd' pg' pd' wp' te' where b: "b = mk_scores wd' lo' gd' pg' pd' wp' te'"
    using is_scoreboard_mk_scores by blast
  have eq: "\<And>k. map_of a k = map_of b k" using assms(3) by simp
  have "wd = wd'" using eq [of "''word''"] by (simp add: a b mk_scores_def)
  moreover have "lo = lo'" using eq [of "''libreoffice''"] by (simp add: a b mk_scores_def)
  moreover have "gd = gd'" using eq [of "''google_docs''"] by (simp add: a b mk_scores_def)
  moreover have "pg = pg'" using eq [of "''apple_pages''"] by (simp add: a b mk_scores_def)
  moreover have "pd = pd'" using eq [of "''pandoc''"] by (simp add: a b mk_scores_def)
  moreover have "wp = wp'" using eq [of "''wordpad''"] by (simp add: a b mk_scores_def)
  moreover have "te = te'" using eq [of "''textedit''"] by (simp add: a b mk_scores_def)
  ultimately have "a = b" by (simp add: a b)
  moreover have "\<exists>v. choose_verdict a = Inr v" unfolding a by (rule choose_verdict_total)
  ultimately show ?thesis by simp
qed

theorem choose_verdict_pure_total_witness:
  "is_scoreboard (mk_scores 7 0 0 0 0 0 0)
   \<and> choose_verdict (mk_scores 7 0 0 0 0 0 0) = choose_verdict (mk_scores 7 0 0 0 0 0 0)
   \<and> (\<exists>v. choose_verdict (mk_scores 7 0 0 0 0 0 0) = Inr v)"
proof -
  have s: "is_scoreboard (mk_scores 7 0 0 0 0 0 0)"
    by (simp add: is_scoreboard_def mk_scores_def)
  from choose_verdict_pure_total [OF s s refl] s show ?thesis by simp
qed

text \<open>
  C10. When several non-Word origins share the highest score, the reducer takes as top
  the one that comes first in the insertion order of the ScoreBoard: libreoffice,
  google_docs, apple_pages, pandoc, wordpad, textedit.
\<close>

theorem top_origin_earliest_in_order:
  "let nw = [(''libreoffice'', lo), (''google_docs'', gd), (''apple_pages'', pg),
             (''pandoc'', pd), (''wordpad'', wp), (''textedit'', te)] in
   non_word (mk_scores wd lo gd pg pd wp te) = nw
   \<and> max_key (non_word (mk_scores wd lo gd pg pd wp te))
       = find (\<lambda>kv. snd kv = Max {lo, gd, pg, pd, wp, te}) nw"
proof -
  have "max_key (non_word (mk_scores wd lo gd pg pd wp te))
          = find (\<lambda>kv. snd kv = Max (snd ` set (non_word (mk_scores wd lo gd pg pd wp te))))
              (non_word (mk_scores wd lo gd pg pd wp te))"
    by (rule max_key_find) (simp add: non_word_mk_scores)
  then show ?thesis
    by (simp add: non_word_mk_scores Let_def)
qed

theorem top_origin_earliest_in_order_witness:
  "max_key (non_word (mk_scores 9 7 7 0 0 0 0)) = Some (''libreoffice'', 7)
   \<and> max_key (non_word (mk_scores 9 1 2 2 5 5 5)) = Some (''pandoc'', 5)"
  using top_origin_earliest_in_order [of 7 7 0 0 0 0 9] top_origin_earliest_in_order [of 1 2 2 5 5 5 9]
  by (simp add: Let_def non_word_mk_scores keep_greater_def)

section \<open>Properties of the scoring engine\<close>

lemma score_parts_report:
  assumes "score_parts fromstring zf p = Inr r"
  shows "scores r = mk_scores
          (fst (word_checks fromstring zf p
                  (fst (lo_checks zf p)) (fst (gdocs_checks zf p)) (fst (pages_checks zf p))))
          (fst (lo_checks zf p)) (fst (gdocs_checks zf p)) (fst (pages_checks zf p))
          (fst (pandoc_checks zf p)) (fst (wordpad_checks zf p)) (fst (textedit_checks zf p))
     \<and> choose_verdict (scores r) = Inr (verdict r)
     \<and> evidence r =
          [(''word'', snd (word_checks fromstring zf p
                  (fst (lo_checks zf p)) (fst (gdocs_checks zf p)) (fst (pages_checks zf p)))),
           (''libreoffice'', snd (lo_checks zf p)),
           (''google_docs'', snd (gdocs_checks zf p)),
           (''apple_pages'', snd (pages_checks zf p)),
           (''pandoc'', snd (pandoc_checks zf p)),
           (''wordpad'', snd (wordpad_checks zf p)),
           (''textedit'', snd (textedit_checks zf p))]"
  using assms unfolding score_parts_def Let_def and_then_def
  by (auto split: sum.splits)

lemma score_docx_report:
  assumes "score_docx fromstring zf = Inr r"
  obtains p where "read_parts fromstring zf = Inr p" and "score_parts fromstring zf p = Inr r"
  using assms unfolding score_docx_def and_then_def
  by (auto split: sum.splits)

text \<open>
  When the parts are read and the speculative detector for other engines does not raise,
  a report is returned.
\<close>

lemma score_docx_returns:
  assumes "read_parts fromstring zf = Inr p"
    and "check_speculative_lomarkeshare
           \<lparr>app = app_txt p, core = core_txt p, font = font_txt p, styles = styles_txt p,
            theme = theme_txt p, content = doc_txt p\<rparr> = Inr x"
  shows "\<exists>r. score_docx fromstring zf = Inr r"
proof -
  obtain v where "choose_verdict (mk_scores
          (fst (word_checks fromstring zf p
                  (fst (lo_checks zf p)) (fst (gdocs_checks zf p)) (fst (pages_checks zf p))))
          (fst (lo_checks zf p)) (fst (gdocs_checks zf p)) (fst (pages_checks zf p))
          (fst (pandoc_checks zf p)) (fst (wordpad_checks zf p)) (fst (textedit_checks zf p))) = Inr v"
    using choose_verdict_total by blast
  then show ?thesis
    unfolding score_docx_def score_parts_def Let_def
    by (simp add: and_then_def assms)
qed

text \<open>
  A match of more than 4300 digits makes \<^verbatim>\<open>int\<close> raise, whatever the test of the loop.
\<close>

lemma first_int_too_long:
  "length m > max_str_digits \<Longrightarrow> first_int test (m # ms) = Inl ValueError"
  by (simp add: py_int_def)

text \<open>
  C1. The claim is that the taint of the report is the maximum over the six non-Word
  scores. The source takes the maximum of the LibreOffice, Google Docs, Pages and Pandoc
  scores only, though it prints the value as "max non-Word": on an archive without
  entries the WordPad score is 4, the highest non-Word score is 4, and the taint is 1.
\<close>

theorem taint_omits_wordpad_textedit:
  "(case score_docx (parser_of []) [] of
      Inl e \<Rightarrow> False
    | Inr r \<Rightarrow> taint r = 1 \<and> score_of (scores r) ''wordpad'' = 4
               \<and> Max (snd ` set (non_word (scores r))) = 4)"
  by code_simp

text \<open>
  C2. The claim is that every score lies in [0,10] and that the deduction of the Word
  detector never brings the Word score below zero. The detectors clamp with
  \<^verbatim>\<open>min(score, 10.0)\<close> only: on a package whose application is LibreOffice and whose
  manifest lists a \<^verbatim>\<open>/docProps/\<close> override before \<^verbatim>\<open>/word/document.xml\<close>, no Word signal
  fires but the deduction, and the Word score is -0.3.
\<close>

theorem word_score_below_zero:
  "(case score_docx (parser_of [app_libreoffice, manifest_docprops_first]) generated_zip of
      Inl e \<Rightarrow> False
    | Inr r \<Rightarrow> score_of (scores r) ''word'' = - (3/10) \<and> score_of (scores r) ''word'' < 0)"
  by code_simp

text \<open>
  C3. The claim is that a part that does not parse is caught locally and the analysis
  still returns a complete ScoreBoard. \<^verbatim>\<open>read_xml_from_zip\<close> catches KeyError only, so
  the ParseError of a malformed \<^verbatim>\<open>docProps/app.xml\<close> leaves \<^verbatim>\<open>score_docx\<close>.
\<close>

theorem malformed_part_raises:
  "score_docx (parser_of []) [(''docProps/app.xml'', ''<'')] = Inl ParseError"
  by code_simp

text \<open>
  C7. The ScoreBoard and the verdict of a report are those that the seven primary
  detectors alone determine: the variant classifier and the speculative detectors have no
  part in them.
\<close>

theorem scores_and_verdict_from_primary_detectors:
  assumes "score_docx fromstring zf = Inr r"
  shows "primary_scores fromstring zf = Inr (scores r, verdict r)"
proof -
  from assms obtain p where p: "read_parts fromstring zf = Inr p"
    and r: "score_parts fromstring zf p = Inr r"
    by (rule score_docx_report)
  from score_parts_report [OF r]
  have sc: "scores r = mk_scores
          (fst (word_checks fromstring zf p
                  (fst (lo_checks zf p)) (fst (gdocs_checks zf p)) (fst (pages_checks zf p))))
          (fst (lo_checks zf p)) (fst (gdocs_checks zf p)) (fst (pages_checks zf p))
          (fst (pandoc_checks zf p)) (fst (wordpad_checks zf p)) (fst (textedit_checks zf p))"
    and cv: "choose_verdict (scores r) = Inr (verdict r)"
    by blast+
  show ?thesis
    unfolding primary_scores_def primary_parts_def Let_def
    using cv by (simp add: p and_then_def sc)
qed

theorem scores_and_verdict_from_primary_detectors_witness:
  "\<exists>r. score_docx (parser_of []) pandoc_core_zip = Inr r
      \<and> primary_scores (parser_of []) pandoc_core_zip = Inr (scores r, verdict r)
      \<and> scores r = mk_scores (6/5) 0 0 0 9 3 1
      \<and> verdict r = ''Definitely Pandoc / programmatic export''"
proof -
  have "(case score_docx (parser_of []) pandoc_core_zip of Inl e \<Rightarrow> False | Inr r \<Rightarrow> True)"
    by code_simp
  then obtain r where d: "score_docx (parser_of []) pandoc_core_zip = Inr r"
    by (cases "score_docx (parser_of []) pandoc_core_zip") auto
  have "primary_scores (parser_of []) pandoc_core_zip
          = Inr (mk_scores (6/5) 0 0 0 9 3 1, ''Definitely Pandoc / programmatic export'')"
    by code_simp
  with scores_and_verdict_from_primary_detectors [OF d] d show ?thesis by simp
qed

section \<open>Properties of the Word boost\<close>

lemma fst_if_hit: "fst (if c then hit w e a else a) = fst a + (if c then w else 0)"
  by (simp add: hit_def)


lemma case_option_if_hit:
  "(case x of None \<Rightarrow> a | Some v \<Rightarrow> if P v then hit w e a else a)
     = (if (case x of None \<Rightarrow> False | Some v \<Rightarrow> P v) then hit w e a else a)"
  by (cases x) simp_all









section \<open>Properties of the Google Docs detector\<close>

lemma fst_if_remark: "fst (if c then remark e a else a) = fst a"
  by (simp add: remark_def)

lemma gdocs_strong:
  "fst (foldl (\<lambda>a s. s a) (0, []) (take 6 (gdocs_steps p)))
     = (if gd_bool_attrs p then 2 else 0) + (if gd_decimal_attrs p then 3/2 else 0)
       + (if gd_play_fonts p then 3 else 0) + (if gd_roboto_fonts p then 3/2 else 0)"
  unfolding gdocs_steps_def
  by (simp add: fst_if_hit fst_if_remark split del: if_split cong: if_cong)

lemma gdocs_raw:
  "fst (run_steps (gdocs_steps p)) =
    (let strong = (if gd_bool_attrs p then 2 else 0) + (if gd_decimal_attrs p then 3/2 else 0)
                + (if gd_play_fonts p then 3 else 0) + (if gd_roboto_fonts p then 3/2 else 0);
          weak = (if (lower_hex p \<or> has_symex p) \<and> (fonts_hit p \<or> strong \<ge> 5/2)
                  then (if lower_hex p then 1/2 else 0) + (if has_symex p then 1/2 else 0)
                  else 0) in
    strong + weak)"
proof -
  have split: "gdocs_steps p = take 6 (gdocs_steps p) @ [gdocs_steps p ! 6]"
    by (simp add: gdocs_steps_def)
  have last: "gdocs_steps p ! 6 = (\<lambda>a. if (lower_hex p \<or> has_symex p) \<and> (fonts_hit p \<or> fst a \<ge> 5/2)
           then (if has_symex p then bump (1/2) else id) ((if lower_hex p then bump (1/2) else id) a)
           else a)"
    by (simp add: gdocs_steps_def)
  have "fst (run_steps (gdocs_steps p)) = fst ((gdocs_steps p ! 6) (foldl (\<lambda>a s. s a) (0, []) (take 6 (gdocs_steps p))))"
    unfolding run_steps_def by (subst split) simp
  also have "\<dots> = (let strong = fst (foldl (\<lambda>a s. s a) (0, []) (take 6 (gdocs_steps p)));
          weak = (if (lower_hex p \<or> has_symex p) \<and> (fonts_hit p \<or> strong \<ge> 5/2)
                  then (if lower_hex p then 1/2 else 0) + (if has_symex p then 1/2 else 0)
                  else 0) in strong + weak)"
    unfolding last by (simp add: bump_def Let_def)
  finally show ?thesis unfolding gdocs_strong .
qed

text \<open>
  C6. In the Google Docs detector the weak signals (lower-case hex colours, the symex
  namespace) add weight only when a strong signal of the detector has fired: the score is
  the clamped sum of the strong weights and of a weak part that is positive only if a
  strong signal fired, and where no strong signal fires the score is 0.
\<close>

theorem gdocs_weak_needs_strong:
  "let strong = (if gd_bool_attrs p then 2 else 0) + (if gd_decimal_attrs p then 3/2 else 0)
                + (if gd_play_fonts p then 3 else 0) + (if gd_roboto_fonts p then 3/2 else 0);
       weak = (if (lower_hex p \<or> has_symex p) \<and> (fonts_hit p \<or> strong \<ge> 5/2)
               then (if lower_hex p then 1/2 else 0) + (if has_symex p then 1/2 else 0)
               else 0)
   in fst (gdocs_checks zf p) = min (strong + weak) 10
      \<and> (weak > 0 \<longrightarrow> gd_bool_attrs p \<or> gd_decimal_attrs p \<or> gd_play_fonts p \<or> gd_roboto_fonts p)
      \<and> (\<not> gd_bool_attrs p \<and> \<not> gd_decimal_attrs p \<and> \<not> gd_play_fonts p \<and> \<not> gd_roboto_fonts p
           \<longrightarrow> fst (gdocs_checks zf p) = 0)"
proof -
  have 1: "fst (gdocs_checks zf p) = min (fst (run_steps (gdocs_steps p))) 10"
    by (simp add: gdocs_checks_def finish_def)
  show ?thesis
    unfolding 1 gdocs_raw
    by (simp add: Let_def fonts_hit_def)
qed

text \<open>
  A bundle on which only the two weak patterns match scores 0, with their two evidence
  items; with a Roboto font table the same styles score 1.5 + 0.5 + 0.5.
\<close>

theorem gdocs_weak_needs_strong_witness:
  "lower_hex (empty_parts\<lparr>styles_txt := weak_styles\<rparr>)
   \<and> has_symex (empty_parts\<lparr>styles_txt := weak_styles\<rparr>)
   \<and> gdocs_checks [] (empty_parts\<lparr>styles_txt := weak_styles\<rparr>)
       = (0, [''Lowercase 6-digit hex color codes (weak Google Docs pattern)'',
              ''Contains w16se:symex namespace (weak marker; Word may include)''])
   \<and> fst (gdocs_checks [] (empty_parts\<lparr>styles_txt := weak_styles, font_txt := ''Roboto''\<rparr>)) = 5/2"
proof -
  let ?p = "empty_parts\<lparr>styles_txt := weak_styles\<rparr>"
  let ?q = "empty_parts\<lparr>styles_txt := weak_styles, font_txt := ''Roboto''\<rparr>"
  have w: "lower_hex ?p" "has_symex ?p" by code_simp+
  have n: "\<not> gd_bool_attrs ?p \<and> \<not> gd_decimal_attrs ?p \<and> \<not> gd_play_fonts ?p \<and> \<not> gd_roboto_fonts ?p"
    by code_simp
  have e: "snd (gdocs_checks [] ?p)
             = [''Lowercase 6-digit hex color codes (weak Google Docs pattern)'',
                ''Contains w16se:symex namespace (weak marker; Word may include)'']"
    by code_simp
  have q: "lower_hex ?q" "has_symex ?q" "\<not> gd_bool_attrs ?q" "\<not> gd_decimal_attrs ?q"
    "\<not> gd_play_fonts ?q" "gd_roboto_fonts ?q"
    by code_simp+
  from gdocs_weak_needs_strong [of ?p "[]"] n have "fst (gdocs_checks [] ?p) = 0"
    by (simp add: Let_def)
  moreover from gdocs_weak_needs_strong [of ?q "[]"] q have "fst (gdocs_checks [] ?q) = 5/2"
    by (simp add: Let_def fonts_hit_def)
  ultimately show ?thesis using w e by (simp add: prod_eq_iff)
qed

section \<open>Range of the scores\<close>

text \<open>
  Every detector returns at most 10. The six non-Word detectors never subtract, so their
  scores are not negative; the Word detector can go down to -0.3, the weight of its one
  deduction. The taint expression of the source is monotone in the four scores it reads.
\<close>

lemma foldl_steps_nonneg:
  "list_all (\<lambda>s. \<forall>a. fst a \<le> fst (s a)) (steps :: step list)
   \<Longrightarrow> fst a0 \<le> fst (foldl (\<lambda>a s. s a) a0 steps)"
proof (induction steps arbitrary: a0)
  case Nil
  show ?case by simp
next
  case (Cons s steps)
  from Cons.prems have s: "fst a0 \<le> fst (s a0)" and rest: "list_all (\<lambda>s. \<forall>a. fst a \<le> fst (s a)) steps"
    unfolding list.pred_inject by blast+
  from Cons.IH [OF rest, of "s a0"] s show ?case by simp
qed

lemma grows_if: "0 \<le> w \<Longrightarrow> \<forall>a. fst a \<le> fst (if c then hit w e a else a)"
  by (simp add: hit_def)

lemma grows_if_acc: "0 \<le> w \<Longrightarrow> \<forall>a. fst a \<le> fst (if c then (if d a then hit w e a else a) else a)"
  by (simp add: hit_def)

lemma grows_case:
  "0 \<le> w \<Longrightarrow> \<forall>a. fst a \<le> fst (case x of None \<Rightarrow> a | Some v \<Rightarrow> if P v then hit w e a else a)"
  by (simp add: hit_def split: option.split)

lemma grows_if_case:
  "0 \<le> w \<Longrightarrow>
   \<forall>a. fst a \<le> fst (if c then (case x of None \<Rightarrow> a | Some v \<Rightarrow> if P v then hit w e a else a) else a)"
  by (simp add: hit_def split: option.split)

lemma grows_remark: "\<forall>a. fst a \<le> fst (if c then remark e a else a)"
  by (simp add: remark_def)

lemma grows_gdocs_weak:
  "\<forall>a. fst a \<le> fst (if (h \<or> x) \<and> (f \<or> fst a \<ge> 5/2)
           then (if x then bump (1/2) else id) ((if h then bump (1/2) else id) a)
           else a)"
  by (simp add: bump_def)

lemma lo_score_range: "0 \<le> fst (lo_checks zf p) \<and> fst (lo_checks zf p) \<le> 10"
proof -
  have "list_all (\<lambda>s. \<forall>a. fst a \<le> fst (s a)) (lo_steps p)"
    unfolding lo_steps_def list.pred_inject
    by (intro conjI grows_if grows_case grows_if_case grows_remark TrueI) simp_all
  from foldl_steps_nonneg [OF this, of "(0, [])"] show ?thesis
    by (simp add: lo_checks_def finish_def run_steps_def)
qed

lemma gdocs_score_range: "0 \<le> fst (gdocs_checks zf p) \<and> fst (gdocs_checks zf p) \<le> 10"
proof -
  have "list_all (\<lambda>s. \<forall>a. fst a \<le> fst (s a)) (gdocs_steps p)"
    unfolding gdocs_steps_def list.pred_inject
    by (intro conjI grows_if grows_remark grows_gdocs_weak TrueI) simp_all
  from foldl_steps_nonneg [OF this, of "(0, [])"] show ?thesis
    by (simp add: gdocs_checks_def finish_def run_steps_def)
qed

lemma pages_score_range: "0 \<le> fst (pages_checks zf p) \<and> fst (pages_checks zf p) \<le> 10"
proof -
  have "list_all (\<lambda>s. \<forall>a. fst a \<le> fst (s a)) (pages_steps p)"
    unfolding pages_steps_def list.pred_inject
    by (intro conjI grows_if grows_if_acc TrueI) simp_all
  from foldl_steps_nonneg [OF this, of "(0, [])"] show ?thesis
    by (simp add: pages_checks_def finish_def run_steps_def)
qed

lemma pandoc_score_range: "0 \<le> fst (pandoc_checks zf p) \<and> fst (pandoc_checks zf p) \<le> 10"
proof -
  have "list_all (\<lambda>s. \<forall>a. fst a \<le> fst (s a)) (pandoc_steps zf p)"
    unfolding pandoc_steps_def list.pred_inject
    by (intro conjI grows_if TrueI) simp_all
  from foldl_steps_nonneg [OF this, of "(0, [])"] show ?thesis
    by (simp add: pandoc_checks_def finish_def run_steps_def)
qed

lemma wordpad_score_range: "0 \<le> fst (wordpad_checks zf p) \<and> fst (wordpad_checks zf p) \<le> 10"
proof -
  have "list_all (\<lambda>s. \<forall>a. fst a \<le> fst (s a)) (wordpad_steps p)"
    unfolding wordpad_steps_def list.pred_inject
    by (intro conjI grows_if TrueI) simp_all
  from foldl_steps_nonneg [OF this, of "(0, [])"] show ?thesis
    by (simp add: wordpad_checks_def finish_def run_steps_def)
qed

lemma textedit_score_range: "0 \<le> fst (textedit_checks zf p) \<and> fst (textedit_checks zf p) \<le> 10"
proof -
  have "list_all (\<lambda>s. \<forall>a. fst a \<le> fst (s a)) (textedit_steps p)"
    unfolding textedit_steps_def list.pred_inject
    by (intro conjI grows_if TrueI) simp_all
  from foldl_steps_nonneg [OF this, of "(0, [])"] show ?thesis
    by (simp add: textedit_checks_def finish_def run_steps_def)
qed

lemma word_score_range:
  "- (3/10) \<le> fst (word_checks fromstring zf p lo gd pg) \<and> fst (word_checks fromstring zf p lo gd pg) \<le> 10"
proof -
  have "- (3/10) \<le> fst (run_steps (word_steps fromstring p lo gd pg))"
    unfolding run_steps_def word_steps_def foldl.simps case_option_if_hit fst_if_hit
    by simp
  then show ?thesis
    by (simp add: word_checks_def finish_def)
qed

lemma taint_monotone:
  "lo \<le> lo' \<Longrightarrow> gd \<le> gd' \<Longrightarrow> pg \<le> pg' \<Longrightarrow> pd \<le> pd' \<Longrightarrow>
   max lo (max gd (max pg pd)) \<le> max lo' (max gd' (max pg' (pd'::score)))"
  by (simp add: max_def)

section \<open>Weight and evidence of the tests\<close>

lemma weighted_if: "w \<noteq> 0 \<Longrightarrow> weighted_with w (\<lambda>a. if c then hit w e a else a)"
  unfolding weighted_with_def by (intro conjI exI [of _ e]) simp_all

lemma weighted_if_acc:
  "w \<noteq> 0 \<Longrightarrow> weighted_with w (\<lambda>a. if c then (if d a then hit w e a else a) else a)"
  unfolding weighted_with_def by (intro conjI exI [of _ e]) simp_all

lemma weighted_case:
  "w \<noteq> 0 \<Longrightarrow> weighted_with w (\<lambda>a. case x of None \<Rightarrow> a | Some v \<Rightarrow> if P v then hit w e a else a)"
  unfolding weighted_with_def by (intro conjI exI [of _ e]) (simp_all split: option.split)

lemma weighted_if_case:
  "w \<noteq> 0 \<Longrightarrow>
   weighted_with w
     (\<lambda>a. if c then (case x of None \<Rightarrow> a | Some v \<Rightarrow> if P v then hit w e a else a) else a)"
  unfolding weighted_with_def by (intro conjI exI [of _ e]) (simp_all split: option.split)

lemma evidence_only_if: "evidence_only_test (\<lambda>a. if c then remark e a else a)"
  unfolding evidence_only_test_def by (intro exI [of _ e]) simp

lemma four_Suc: "(4::nat) = Suc (Suc (Suc (Suc 0)))"
  by simp

lemma six_Suc: "(6::nat) = Suc (Suc (Suc (Suc (Suc (Suc 0)))))"
  by simp

lemma pages_tests: "list_all2 weighted_with [9/2, 3/2, 1, 1/2, 7/2] (pages_steps p)"
  unfolding pages_steps_def list.rel_inject
  by (intro conjI weighted_if weighted_if_acc TrueI) simp_all

lemma pandoc_tests:
  "list_all2 weighted_with [8, 3/2, 5/2, 2, 3/2, 1, 1, 8/10, 8/10, 8/10, 1/2, 1/2, 1/2, 1/2]
     (pandoc_steps zf p)"
  unfolding pandoc_steps_def list.rel_inject
  by (intro conjI weighted_if TrueI) simp_all

lemma wordpad_tests: "list_all2 weighted_with [3, 3, 3, 1] (wordpad_steps p)"
  unfolding wordpad_steps_def list.rel_inject
  by (intro conjI weighted_if TrueI) simp_all

lemma textedit_tests: "list_all2 weighted_with [3, 3, 2, 2, 1, 1] (textedit_steps p)"
  unfolding textedit_steps_def list.rel_inject
  by (intro conjI weighted_if TrueI) simp_all

lemma word_tests:
  "list_all2 weighted_with [4, 3/2, 1, 1, 8/10, 12/10, - (3/10)] (word_steps fromstring p lo gd pg)"
  unfolding word_steps_def list.rel_inject
  by (intro conjI weighted_if weighted_case TrueI) simp_all

lemma lo_tests:
  "list_all2 weighted_with [6, 3] (take 2 (lo_steps p))
   \<and> evidence_only_test (lo_steps p ! 2)
   \<and> list_all2 weighted_with [3, 3, 3, 1/2, 1, 2/10, 3/10, 4/10] (drop 3 (lo_steps p))"
  unfolding lo_steps_def
  apply (simp only: numeral_2_eq_2 numeral_3_eq_3 take_Suc_Cons drop_Suc_Cons nth_Cons_Suc nth_Cons_0
      take_0 drop_0 list.rel_inject)
  apply (intro conjI weighted_if weighted_case weighted_if_case evidence_only_if TrueI)
  apply simp_all
  done

lemma gdocs_tests:
  "list_all2 weighted_with [2, 3/2] (take 2 (gdocs_steps p))
   \<and> list_all evidence_only_test (take 2 (drop 2 (gdocs_steps p)))
   \<and> list_all2 weighted_with [3, 3/2] (take 2 (drop 4 (gdocs_steps p)))"
  unfolding gdocs_steps_def
  apply (simp only: numeral_2_eq_2 four_Suc take_Suc_Cons drop_Suc_Cons
      take_0 drop_0 list.rel_inject list.pred_inject)
  apply (intro conjI weighted_if evidence_only_if TrueI)
  apply simp_all
  done

lemma gdocs_last_test:
  "(gdocs_steps p ! 6) a =
     (if (lower_hex p \<or> has_symex p) \<and> (fonts_hit p \<or> fst a \<ge> 5/2)
      then bump ((if lower_hex p then 1/2 else 0) + (if has_symex p then 1/2 else 0)) a
      else a)"
  by (simp add: gdocs_steps_def bump_def)

text \<open>
  C9, as stated, fails: a detector does append evidence for a test that adds no weight.
  On a package with a font table that has no fingerprint elements the LibreOffice score
  is 0 and its evidence holds one item.
\<close>

theorem evidence_without_weight:
  "(case score_docx (parser_of [font_table_plain]) [(''word/fontTable.xml'', fst font_table_plain)] of
      Inl e \<Rightarrow> False
    | Inr r \<Rightarrow> score_of (scores r) ''libreoffice'' = 0
               \<and> evidence_of r ''libreoffice''
                   = [''No <w:panose1> or <w:sig> font fingerprints (often present in Word)''])"
  by code_simp

text \<open>
  C9, amended. Every test of the Pages, Pandoc, WordPad, TextEdit and Word detectors,
  ten of the eleven LibreOffice tests and four of the seven Google Docs tests have a
  fixed non-zero weight, the same for every package and listed here in the order of the
  source: a test that passes adds its weight and appends exactly one evidence item, and
  one that does not pass changes nothing. The third LibreOffice test (no font
  fingerprints) and the third and fourth Google Docs tests (the weak patterns) append one
  evidence item and add no weight. The last Google Docs test, when a weak pattern matched
  and a font signal fired or the score is at least 2.5, adds 0.5 for each weak pattern
  that matched and appends nothing.
\<close>

theorem tests_pair_weight_and_evidence:
  "list_all2 weighted_with [9/2, 3/2, 1, 1/2, 7/2] (pages_steps p)
   \<and> list_all2 weighted_with [8, 3/2, 5/2, 2, 3/2, 1, 1, 8/10, 8/10, 8/10, 1/2, 1/2, 1/2, 1/2]
        (pandoc_steps zf p)
   \<and> list_all2 weighted_with [3, 3, 3, 1] (wordpad_steps p)
   \<and> list_all2 weighted_with [3, 3, 2, 2, 1, 1] (textedit_steps p)
   \<and> list_all2 weighted_with [4, 3/2, 1, 1, 8/10, 12/10, - (3/10)] (word_steps fromstring p lo gd pg)
   \<and> length (lo_steps p) = 11
   \<and> list_all2 weighted_with [6, 3] (take 2 (lo_steps p))
   \<and> evidence_only_test (lo_steps p ! 2)
   \<and> list_all2 weighted_with [3, 3, 3, 1/2, 1, 2/10, 3/10, 4/10] (drop 3 (lo_steps p))
   \<and> length (gdocs_steps p) = 7
   \<and> list_all2 weighted_with [2, 3/2] (take 2 (gdocs_steps p))
   \<and> list_all evidence_only_test (take 2 (drop 2 (gdocs_steps p)))
   \<and> list_all2 weighted_with [3, 3/2] (take 2 (drop 4 (gdocs_steps p)))
   \<and> (gdocs_steps p ! 6) a =
        (if (lower_hex p \<or> has_symex p) \<and> (fonts_hit p \<or> fst a \<ge> 5/2)
         then bump ((if lower_hex p then 1/2 else 0) + (if has_symex p then 1/2 else 0)) a
         else a)"
proof -
  have "length (lo_steps p) = 11" by (simp add: lo_steps_def)
  moreover have "length (gdocs_steps p) = 7" by (simp add: gdocs_steps_def)
  ultimately show ?thesis
    using pages_tests [of p] pandoc_tests [of zf p] wordpad_tests [of p] textedit_tests [of p]
      word_tests [of fromstring p lo gd pg] lo_tests [of p] gdocs_tests [of p] gdocs_last_test [of p a]
    by blast
qed

text \<open>
  On a bundle with a plain font table the third LibreOffice test passes and appends its
  item with the score left at 0; on a bundle where both weak patterns and a Roboto font
  match, the last Google Docs test takes a score of 3/2 to 5/2 and appends nothing.
\<close>

theorem tests_pair_weight_and_evidence_witness:
  "(lo_steps (empty_parts\<lparr>font_txt := ''<fonts/>''\<rparr>) ! 2) (0, [])
     = (0, [''No <w:panose1> or <w:sig> font fingerprints (often present in Word)''])
   \<and> evidence_only_test (lo_steps (empty_parts\<lparr>font_txt := ''<fonts/>''\<rparr>) ! 2)
   \<and> list_all2 weighted_with [3, 3, 3, 1] (wordpad_steps (empty_parts\<lparr>font_txt := ''<fonts/>''\<rparr>))
   \<and> (gdocs_steps (empty_parts\<lparr>styles_txt := weak_styles, font_txt := ''Roboto''\<rparr>) ! 6) (3/2, [])
       = (5/2, [])"
proof -
  let ?q = "empty_parts\<lparr>styles_txt := weak_styles, font_txt := ''Roboto''\<rparr>"
  have 1: "(lo_steps (empty_parts\<lparr>font_txt := ''<fonts/>''\<rparr>) ! 2) (0, [])
     = (0, [''No <w:panose1> or <w:sig> font fingerprints (often present in Word)''])"
    by code_simp
  have q: "lower_hex ?q" "has_symex ?q" "fonts_hit ?q" by code_simp+
  from tests_pair_weight_and_evidence [of ?q "[]" "parser_of []" 0 0 0 "(3/2, [])"] q
  have 2: "(gdocs_steps ?q ! 6) (3/2, []) = (5/2, [])"
    by (simp add: bump_def)
  from tests_pair_weight_and_evidence
         [of "empty_parts\<lparr>font_txt := ''<fonts/>''\<rparr>" "[]" "parser_of []" 0 0 0 "(0, [])"] 1 2
  show ?thesis by blast
qed

end
